theory Spec2Isabelle
  imports
    Complex_Main
    "HOL-Library.Multiset"
    "HOL-Library.Char_ord"
    "HOL-Library.List_Lexorder"
begin

section \<open>Values of the tables\<close>

text \<open>
  The programs \<^verbatim>\<open>data_loader.py\<close> and \<^verbatim>\<open>business_metrics.py\<close> work on pandas tables.
  A table is modelled as the list of its rows, a row as a record of the columns the
  functions read. A cell that pandas holds as a missing value (NaN, NaT, None) is
  \<open>None\<close>. A number of a float column is the rational number that the float64 value
  stands for. The sum of a column is modelled as the mathematical sum of its cells; the
  properties below that mention a sum speak about the same sum as the code takes, and
  none of them compares two different groupings of the same cells. The division and the
  subtraction of \<^verbatim>\<open>pct_change\<close> round their results to float64, because there the order
  of the operations decides the last bits of the result. The results of a division or
  of a mean are \<open>npfloat\<close> values, which add the three special values of the floating
  point columns.
\<close>

datatype npfloat = Fin rat | PosInf | NegInf | NaN

subsection \<open>Rounding to float64\<close>

text \<open>
  A float64 value other than 0 is a whole number of 53 bits times a power of 2. The
  result of an operation on float64 values is the exact result rounded to the nearest
  such value, and to the one with the even whole number when two are equally near.
  Overflow and the subnormal range are not modelled: the values of the tables are far
  from both.
\<close>

fun bit_length :: "nat \<Rightarrow> nat" where
  "bit_length n = (if n = 0 then 0 else Suc (bit_length (n div 2)))"

declare bit_length.simps [simp del]

definition pow2 :: "int \<Rightarrow> rat" where
  "pow2 k = (if 0 \<le> k then 2 ^ nat k else 1 / 2 ^ nat (- k))"

text \<open>The exponent \<open>e\<close> of a positive number \<open>x\<close>: the one with \<open>2^e \<le> x < 2^(e+1)\<close>.\<close>

definition binary_exponent :: "rat \<Rightarrow> int" where
  "binary_exponent x =
     (if 1 \<le> x then int (bit_length (nat \<lfloor>x\<rfloor>)) - 1
      else - int (bit_length (nat (\<lceil>1 / x\<rceil> - 1))))"

definition round_half_even :: "rat \<Rightarrow> int" where
  "round_half_even q =
     (let f = \<lfloor>q\<rfloor>; d = q - of_int f
      in if d < 1 / 2 then f else if 1 / 2 < d then f + 1 else if even f then f else f + 1)"

definition float64_round :: "rat \<Rightarrow> rat" where
  "float64_round x =
     (if x = 0 then 0
      else let a = \<bar>x\<bar>; ulp = pow2 (binary_exponent a - 52)
           in sgn x * of_int (round_half_even (a / ulp)) * ulp)"



text \<open>
  The reductions of a numeric column. \<^verbatim>\<open>Series.sum()\<close> skips missing cells and is 0 on
  a column without values, \<^verbatim>\<open>count\<close> counts the cells that are not missing, and
  \<^verbatim>\<open>Series.mean()\<close> is the mean of the cells that are not missing, NaN when there is none.
\<close>

definition cell_value :: "rat option \<Rightarrow> rat" where
  "cell_value c = (case c of None \<Rightarrow> 0 | Some v \<Rightarrow> v)"

definition np_sum :: "rat option list \<Rightarrow> rat" where
  "np_sum cs = sum_list (map cell_value cs)"

definition np_count :: "rat option list \<Rightarrow> nat" where
  "np_count cs = length (filter (\<lambda>c. c \<noteq> None) cs)"

definition np_mean :: "rat option list \<Rightarrow> npfloat" where
  "np_mean cs = (if np_count cs = 0 then NaN else Fin (np_sum cs / of_nat (np_count cs)))"

text \<open>
  \<^verbatim>\<open>df.groupby(key)\<close>: the groups are the distinct keys in ascending order, a row whose
  key is missing belongs to no group.
\<close>

definition group_keys :: "('r \<Rightarrow> 'k::linorder option) \<Rightarrow> 'r list \<Rightarrow> 'k list" where
  "group_keys key rs = sort (remdups (List.map_filter key rs))"

definition group_rows :: "('r \<Rightarrow> 'k option) \<Rightarrow> 'r list \<Rightarrow> 'k \<Rightarrow> 'r list" where
  "group_rows key rs k = filter (\<lambda>r. key r = Some k) rs"

text \<open>\<^verbatim>\<open>df.groupby(key)[col].sum()\<close> and \<^verbatim>\<open>.mean()\<close>, as the series of (key, value).\<close>

definition groupby_sum ::
  "('r \<Rightarrow> 'k::linorder option) \<Rightarrow> ('r \<Rightarrow> rat option) \<Rightarrow> 'r list \<Rightarrow> ('k \<times> rat) list" where
  "groupby_sum key col rs =
     map (\<lambda>k. (k, np_sum (map col (group_rows key rs k)))) (group_keys key rs)"

definition groupby_mean ::
  "('r \<Rightarrow> 'k::linorder option) \<Rightarrow> ('r \<Rightarrow> rat option) \<Rightarrow> 'r list \<Rightarrow> ('k \<times> npfloat) list" where
  "groupby_mean key col rs =
     map (\<lambda>k. (k, np_mean (map col (group_rows key rs k)))) (group_keys key rs)"

text \<open>
  \<^verbatim>\<open>df.drop_duplicates()\<close> keeps the first of equal rows, in the order of the table;
  two missing cells count as equal.
\<close>

definition drop_duplicates :: "'a list \<Rightarrow> 'a list" where
  "drop_duplicates xs = rev (remdups (rev xs))"

text \<open>
  A timestamp carries its calendar year and month (\<^verbatim>\<open>.dt.year\<close>, \<^verbatim>\<open>.dt.month\<close>) and its
  position on the time line in nanoseconds, which is what a difference of two
  timestamps is computed from.
\<close>

record timestamp =
  ts_year :: int
  ts_month :: int
  ts_value :: int

definition ns_per_day :: int where
  "ns_per_day = 86400000000000"

section \<open>The tables\<close>

text \<open>
  The rows of the six source tables, with the columns that the modelled functions read.
  The identifiers are the strings of the files; a category name, a state, a status, a
  number and a timestamp may be missing. The timestamps of a file are taken as parsed
  (\<^verbatim>\<open>pd.to_datetime(..., errors='coerce')\<close> gives a missing value for a text that is no
  date).
\<close>

record order_item =
  oi_order_id :: string
  oi_product_id :: string
  oi_price :: "rat option"
  oi_freight_value :: "rat option"
  oi_total_value :: "rat option"

record order =
  o_order_id :: string
  o_customer_id :: string
  o_order_status :: "string option"
  o_order_purchase_timestamp :: "timestamp option"
  o_order_delivered_customer_date :: "timestamp option"
  o_order_year :: "int option"
  o_order_month :: "int option"

text \<open>
  The orders table as the loader holds it: \<open>ot_processed\<close> says whether
  \<^verbatim>\<open>_process_orders_data\<close> has added the columns \<^verbatim>\<open>order_year\<close> and \<^verbatim>\<open>order_month\<close>.
\<close>

record orders_table =
  ot_processed :: bool
  ot_rows :: "order list"

record product =
  p_product_id :: string
  p_product_category_name :: "string option"

record customer =
  c_customer_id :: string
  c_customer_state :: "string option"

record review =
  r_order_id :: string
  r_review_score :: "rat option"

record payment =
  pay_order_id :: string

text \<open>
  A row of the sales table: an order item with the columns of its order and the two
  period columns \<^verbatim>\<open>year\<close> and \<^verbatim>\<open>month\<close>.
\<close>

record sales_row =
  order_id :: string
  product_id :: string
  price :: "rat option"
  freight_value :: "rat option"
  total_value :: "rat option"
  order_status :: "string option"
  order_purchase_timestamp :: "timestamp option"
  order_delivered_customer_date :: "timestamp option"
  order_year :: "int option"
  order_month :: "int option"
  year :: "int option"
  month :: "int option"

text \<open>
  The sales table while \<^verbatim>\<open>create_sales_dataset\<close> builds it: its rows, and whether the
  columns of the orders table and the period columns are there. Reading a column that
  is not there raises KeyError.
\<close>

record sales_table =
  order_columns :: bool
  period_columns :: bool
  sales_rows :: "sales_row list"

datatype error = KeyError string

text \<open>
  \<^verbatim>\<open>self.datasets\<close>: the dictionary from the table names to the loaded tables. The same
  record describes the data directory, where a field is \<open>None\<close> when the file is not
  there and the orders table is not processed.
\<close>

record datasets =
  orders :: "orders_table option"
  order_items :: "order_item list option"
  products :: "product list option"
  customers :: "customer list option"
  reviews :: "review list option"
  payments :: "payment list option"

section \<open>The data loader\<close>

definition datasets_empty :: "datasets \<Rightarrow> bool" where
  "datasets_empty ds \<longleftrightarrow>
     orders ds = None \<and> order_items ds = None \<and> products ds = None \<and>
     customers ds = None \<and> reviews ds = None \<and> payments ds = None"

text \<open>
  \<^verbatim>\<open>load_raw_datasets\<close>: a file that is found replaces the entry of its table, a file
  that is not found is skipped with a warning and leaves the entry as it was.
\<close>

definition load_file :: "'a option \<Rightarrow> 'a option \<Rightarrow> 'a option" where
  "load_file file entry = (case file of Some t \<Rightarrow> Some t | None \<Rightarrow> entry)"

definition load_raw_datasets :: "datasets \<Rightarrow> datasets \<Rightarrow> datasets" where
  "load_raw_datasets disk ds =
     \<lparr> orders = load_file (map_option (\<lambda>t. t\<lparr>ot_processed := False\<rparr>) (orders disk)) (orders ds),
       order_items = load_file (order_items disk) (order_items ds),
       products = load_file (products disk) (products ds),
       customers = load_file (customers disk) (customers ds),
       reviews = load_file (reviews disk) (reviews ds),
       payments = load_file (payments disk) (payments ds) \<rparr>"

definition process_orders_data :: "orders_table \<Rightarrow> orders_table" where
  "process_orders_data t =
     \<lparr> ot_processed = True,
       ot_rows = map (\<lambda>r. r\<lparr> o_order_year := map_option ts_year (o_order_purchase_timestamp r),
                              o_order_month := map_option ts_month (o_order_purchase_timestamp r) \<rparr>)
                     (ot_rows t) \<rparr>"

text \<open>The sum of two cells is missing when one of them is.\<close>

definition cell_add :: "rat option \<Rightarrow> rat option \<Rightarrow> rat option" where
  "cell_add a b = (case (a, b) of (Some x, Some y) \<Rightarrow> Some (x + y) | _ \<Rightarrow> None)"

definition process_order_items_data :: "order_item list \<Rightarrow> order_item list" where
  "process_order_items_data items =
     map (\<lambda>r. r\<lparr> oi_total_value := cell_add (oi_price r) (oi_freight_value r) \<rparr>) items"

text \<open>
  \<^verbatim>\<open>_process_products_data\<close> and \<^verbatim>\<open>_process_reviews_data\<close> convert columns to numbers and
  dates and add the product volume; they leave the columns modelled here as they are.
\<close>

definition process_products_data :: "product list \<Rightarrow> product list" where
  "process_products_data ps = ps"

definition process_reviews_data :: "review list \<Rightarrow> review list" where
  "process_reviews_data rs = rs"

definition clean_and_process_data :: "datasets \<Rightarrow> datasets \<Rightarrow> datasets" where
  "clean_and_process_data disk ds =
     (let ds1 = (if datasets_empty ds then load_raw_datasets disk ds else ds)
      in ds1\<lparr> orders := map_option process_orders_data (orders ds1),
              order_items := map_option process_order_items_data (order_items ds1),
              products := map_option process_products_data (products ds1),
              reviews := map_option process_reviews_data (reviews ds1) \<rparr>)"

text \<open>\<^verbatim>\<open>self.datasets['order_items'].copy()\<close> as the first sales table.\<close>

definition base_row :: "order_item \<Rightarrow> sales_row" where
  "base_row i =
     \<lparr> order_id = oi_order_id i, product_id = oi_product_id i, price = oi_price i,
       freight_value = oi_freight_value i, total_value = oi_total_value i,
       order_status = None, order_purchase_timestamp = None,
       order_delivered_customer_date = None, order_year = None, order_month = None,
       year = None, month = None \<rparr>"

definition with_order :: "sales_row \<Rightarrow> order \<Rightarrow> sales_row" where
  "with_order r ord =
     r\<lparr> order_status := o_order_status ord,
        order_purchase_timestamp := o_order_purchase_timestamp ord,
        order_delivered_customer_date := o_order_delivered_customer_date ord,
        order_year := o_order_year ord, order_month := o_order_month ord \<rparr>"

text \<open>
  \<^verbatim>\<open>pd.merge(sales_data, orders[[...]], on='order_id', how='left')\<close>: every sales row
  once for each order row with its order id, in the order of the sales rows, and once
  with missing order columns when there is none.
\<close>

definition left_merge_orders :: "sales_row list \<Rightarrow> order list \<Rightarrow> sales_row list" where
  "left_merge_orders rs os =
     concat (map (\<lambda>r. case filter (\<lambda>ord. o_order_id ord = order_id r) os of
                         [] \<Rightarrow> [r]
                       | ms \<Rightarrow> map (with_order r) ms) rs)"

text \<open>
  The merge step: skipped when the loader has no orders table; selecting the columns
  \<^verbatim>\<open>order_year\<close> and \<^verbatim>\<open>order_month\<close> of an orders table that was not processed raises
  KeyError (the error value names the first of the two columns).
\<close>

definition merge_with_orders :: "datasets \<Rightarrow> sales_table \<Rightarrow> error + sales_table" where
  "merge_with_orders ds t =
     (case orders ds of
        None \<Rightarrow> Inr t
      | Some ot \<Rightarrow>
          if \<not> ot_processed ot then Inl (KeyError ''order_year'')
          else Inr (t\<lparr> order_columns := True,
                       sales_rows := left_merge_orders (sales_rows t) (ot_rows ot) \<rparr>))"

text \<open>
  The status filter. A text is true in a condition when it is not empty. Comparing a
  missing status with a text is false, and a missing status is in no list.
\<close>

definition filter_by_status :: "string \<Rightarrow> bool \<Rightarrow> sales_table \<Rightarrow> error + sales_table" where
  "filter_by_status filter_status include_cancelled t =
     (if filter_status \<noteq> [] \<and> \<not> include_cancelled then
        (if \<not> order_columns t then Inl (KeyError ''order_status'')
         else Inr (t\<lparr> sales_rows :=
                 filter (\<lambda>r. order_status r = Some filter_status) (sales_rows t) \<rparr>))
      else if filter_status \<noteq> [] then
        (let statuses = [filter_status] @ (if include_cancelled then [''cancelled''] else [])
         in if \<not> order_columns t then Inl (KeyError ''order_status'')
            else Inr (t\<lparr> sales_rows :=
                    filter (\<lambda>r. case order_status r of None \<Rightarrow> False
                                 | Some s \<Rightarrow> s \<in> set statuses) (sales_rows t) \<rparr>))
      else Inr t)"

definition time_columns :: "sales_row \<Rightarrow> sales_row" where
  "time_columns r =
     r\<lparr> year := map_option ts_year (order_purchase_timestamp r),
        month := map_option ts_month (order_purchase_timestamp r) \<rparr>"

text \<open>
  The columns \<^verbatim>\<open>year\<close> and \<^verbatim>\<open>month\<close> are added when the table has the column
  \<^verbatim>\<open>order_purchase_timestamp\<close>, which comes from the orders table.
\<close>

definition add_time_columns :: "sales_table \<Rightarrow> sales_table" where
  "add_time_columns t =
     (if order_columns t then
        t\<lparr> period_columns := True, sales_rows := map time_columns (sales_rows t) \<rparr>
      else t)"

text \<open>
  \<^verbatim>\<open>if not self.datasets: self.clean_and_process_data()\<close>: the dictionary that the rest of
  \<^verbatim>\<open>create_sales_dataset\<close> works on.
\<close>

definition loaded_datasets :: "datasets \<Rightarrow> datasets \<Rightarrow> datasets" where
  "loaded_datasets disk ds = (if datasets_empty ds then clean_and_process_data disk ds else ds)"

text \<open>
  \<^verbatim>\<open>create_sales_dataset\<close>, with the data directory \<open>disk\<close> that the loader reads when its
  dictionary is empty. The result is the loader's dictionary after the call, and the
  sales table or the exception that ended the call.
\<close>

definition create_sales_dataset ::
  "datasets \<Rightarrow> datasets \<Rightarrow> string \<Rightarrow> bool \<Rightarrow> datasets \<times> (error + sales_table)" where
  "create_sales_dataset disk ds filter_status include_cancelled =
     (let ds1 = loaded_datasets disk ds
      in (ds1,
          case order_items ds1 of
            None \<Rightarrow> Inl (KeyError ''order_items'')
          | Some items \<Rightarrow>
              (case merge_with_orders ds1
                      \<lparr> order_columns = False, period_columns = False,
                        sales_rows = map base_row items \<rparr> of
                 Inl e \<Rightarrow> Inl e
               | Inr merged \<Rightarrow>
                   (case filter_by_status filter_status include_cancelled merged of
                      Inl e \<Rightarrow> Inl e
                    | Inr filtered \<Rightarrow> Inr (add_time_columns filtered)))))"

section \<open>Revenue, order and order value metrics\<close>

text \<open>
  A period column is given by the function that reads it from a row (\<open>year\<close> or
  \<open>month\<close>). \<^verbatim>\<open>sales_data[sales_data[col] == value]\<close> keeps the rows whose cell equals
  the value; a missing cell equals no value.
\<close>

definition select_period :: "(sales_row \<Rightarrow> int option) \<Rightarrow> int \<Rightarrow> sales_row list \<Rightarrow> sales_row list" where
  "select_period col v rs = filter (\<lambda>r. col r = Some v) rs"

record revenue_metrics =
  current_revenue :: rat
  comparison_revenue :: rat
  revenue_growth_pct :: rat
  current_period :: int
  comparison_period :: int

definition calculate_revenue_metrics ::
  "sales_row list \<Rightarrow> (sales_row \<Rightarrow> int option) \<Rightarrow> int \<Rightarrow> int \<Rightarrow> revenue_metrics" where
  "calculate_revenue_metrics sales_data current_period_col cur cmp =
     (let current_data = select_period current_period_col cur sales_data;
          comparison_data = select_period current_period_col cmp sales_data;
          current_rev = np_sum (map price current_data);
          comparison_rev = np_sum (map price comparison_data);
          revenue_growth = (if comparison_rev > 0
                            then (current_rev - comparison_rev) / comparison_rev * 100 else 0)
      in \<lparr> current_revenue = current_rev, comparison_revenue = comparison_rev,
           revenue_growth_pct = revenue_growth, current_period = cur,
           comparison_period = cmp \<rparr>)"




text \<open>The mean of a series of numbers, NaN for the empty series.\<close>

definition series_mean :: "rat list \<Rightarrow> npfloat" where
  "series_mean vs = (if vs = [] then NaN else Fin (sum_list vs / of_nat (length vs)))"

text \<open>
  \<^verbatim>\<open>(current - comparison) / comparison * 100 if comparison > 0 else 0\<close> on float values:
  NaN is not above 0, and an undefined current value gives an undefined growth.
\<close>

fun np_growth :: "npfloat \<Rightarrow> npfloat \<Rightarrow> npfloat" where
  "np_growth (Fin a) (Fin c) = (if c > 0 then Fin ((a - c) / c * 100) else Fin 0)"
| "np_growth PosInf (Fin c) = (if c > 0 then PosInf else Fin 0)"
| "np_growth NegInf (Fin c) = (if c > 0 then NegInf else Fin 0)"
| "np_growth NaN (Fin c) = (if c > 0 then NaN else Fin 0)"
| "np_growth a PosInf = NaN"
| "np_growth a NegInf = Fin 0"
| "np_growth a NaN = Fin 0"

record aov_metrics =
  current_aov :: npfloat
  comparison_aov :: npfloat
  aov_growth_pct :: npfloat

definition calculate_average_order_value ::
  "sales_row list \<Rightarrow> (sales_row \<Rightarrow> int option) \<Rightarrow> int \<Rightarrow> int \<Rightarrow> aov_metrics" where
  "calculate_average_order_value sales_data current_period_col cur cmp =
     (let current_data = select_period current_period_col cur sales_data;
          comparison_data = select_period current_period_col cmp sales_data;
          cur_aov = series_mean (map snd (groupby_sum (\<lambda>r. Some (order_id r)) price current_data));
          cmp_aov = series_mean (map snd (groupby_sum (\<lambda>r. Some (order_id r)) price comparison_data))
      in \<lparr> current_aov = cur_aov, comparison_aov = cmp_aov,
           aov_growth_pct = np_growth cur_aov cmp_aov \<rparr>)"

text \<open>\<^verbatim>\<open>Series.nunique()\<close>: the number of distinct values.\<close>

definition nunique :: "'a list \<Rightarrow> nat" where
  "nunique xs = length (remdups xs)"

record order_metrics =
  current_orders :: nat
  comparison_orders :: nat
  order_growth_pct :: rat

definition calculate_order_metrics ::
  "sales_row list \<Rightarrow> (sales_row \<Rightarrow> int option) \<Rightarrow> int \<Rightarrow> int \<Rightarrow> order_metrics" where
  "calculate_order_metrics sales_data current_period_col cur cmp =
     (let current_data = select_period current_period_col cur sales_data;
          comparison_data = select_period current_period_col cmp sales_data;
          cur_orders = nunique (map order_id current_data);
          cmp_orders = nunique (map order_id comparison_data);
          order_growth = (if cmp_orders > 0
                          then (of_nat cur_orders - of_nat cmp_orders) / of_nat cmp_orders * 100
                          else 0)
      in \<lparr> current_orders = cur_orders, comparison_orders = cmp_orders,
           order_growth_pct = order_growth \<rparr>)"

section \<open>Category and geographic performance\<close>

text \<open>
  A row of a performance table: the group (a category or a state) and the three
  aggregates of the price column, under the names the source renames them to.
\<close>

record performance_row =
  perf_group :: string
  total_revenue :: rat
  total_orders :: nat
  avg_order_value :: npfloat

text \<open>
  \<^verbatim>\<open>groupby(key)['price'].agg(['sum', 'count', 'mean'])\<close> followed by
  \<^verbatim>\<open>sort_values('total_revenue', ascending=False)\<close>. The sort is modelled as a stable
  sort; pandas leaves the order of groups with equal revenue open.
\<close>

definition agg_sum_count_mean ::
  "(string option \<times> rat option) list \<Rightarrow> performance_row list" where
  "agg_sum_count_mean rows =
     map (\<lambda>k. let cells = map snd (group_rows fst rows k)
               in \<lparr> perf_group = k, total_revenue = np_sum cells,
                    total_orders = np_count cells, avg_order_value = np_mean cells \<rparr>)
         (group_keys fst rows)"

definition sort_by_revenue_desc :: "performance_row list \<Rightarrow> performance_row list" where
  "sort_by_revenue_desc gs = sort_key (\<lambda>g. - total_revenue g) gs"

text \<open>
  \<^verbatim>\<open>pd.merge(left, right, on=key)\<close> is an inner join: each left row once for each right
  row with its key, in the order of the left rows; a left row without partner and a
  right row without partner are dropped.
\<close>

definition inner_merge ::
  "('a \<Rightarrow> string) \<Rightarrow> ('b \<Rightarrow> string) \<Rightarrow> 'a list \<Rightarrow> 'b list \<Rightarrow> ('a \<times> 'b) list" where
  "inner_merge lkey rkey ls rs =
     concat (map (\<lambda>l. map (\<lambda>r. (l, r)) (filter (\<lambda>r. rkey r = lkey l) rs)) ls)"

text \<open>
  The joined table \<^verbatim>\<open>category_sales\<close>: a pair of a product row and a sales row of the
  period for each match of the product id.
\<close>

definition category_sales ::
  "sales_row list \<Rightarrow> product list \<Rightarrow> (sales_row \<Rightarrow> int option) \<Rightarrow> int
     \<Rightarrow> (product \<times> sales_row) list" where
  "category_sales sales_data products_data period_col period_value =
     (let period_data = select_period period_col period_value sales_data
      in inner_merge p_product_id product_id products_data period_data)"

definition calculate_product_category_performance ::
  "sales_row list \<Rightarrow> product list \<Rightarrow> (sales_row \<Rightarrow> int option) \<Rightarrow> int \<Rightarrow> performance_row list" where
  "calculate_product_category_performance sales_data products_data period_col period_value =
     sort_by_revenue_desc
       (agg_sum_count_mean
          (map (\<lambda>(p, s). (p_product_category_name p, price s))
             (category_sales sales_data products_data period_col period_value)))"

text \<open>
  The joined table \<^verbatim>\<open>sales_states\<close>: the sales rows of the period joined with the orders
  on the order id, and the result joined with the customers on the customer id.
\<close>

definition sales_states ::
  "sales_row list \<Rightarrow> order list \<Rightarrow> customer list \<Rightarrow> (sales_row \<Rightarrow> int option) \<Rightarrow> int
     \<Rightarrow> ((sales_row \<times> order) \<times> customer) list" where
  "sales_states sales_data orders_data customers_data period_col period_value =
     (let period_data = select_period period_col period_value sales_data;
          sales_customers = inner_merge order_id o_order_id period_data orders_data
      in inner_merge (\<lambda>(s, ord). o_customer_id ord) c_customer_id
           sales_customers customers_data)"

definition calculate_geographic_performance ::
  "sales_row list \<Rightarrow> order list \<Rightarrow> customer list \<Rightarrow> (sales_row \<Rightarrow> int option) \<Rightarrow> int
     \<Rightarrow> performance_row list" where
  "calculate_geographic_performance sales_data orders_data customers_data period_col period_value =
     sort_by_revenue_desc
       (agg_sum_count_mean
          (map (\<lambda>((s, ord), c). (c_customer_state c, price s))
             (sales_states sales_data orders_data customers_data period_col period_value)))"

text \<open>
  The line items of a group: the sales rows that the join puts into the category, or
  into the state, once for each of their rows in the joined table.
\<close>

definition category_items ::
  "sales_row list \<Rightarrow> product list \<Rightarrow> (sales_row \<Rightarrow> int option) \<Rightarrow> int \<Rightarrow> string
     \<Rightarrow> sales_row list" where
  "category_items sales_data products_data period_col period_value k =
     map snd (filter (\<lambda>x. p_product_category_name (fst x) = Some k)
                (category_sales sales_data products_data period_col period_value))"

definition state_items ::
  "sales_row list \<Rightarrow> order list \<Rightarrow> customer list \<Rightarrow> (sales_row \<Rightarrow> int option) \<Rightarrow> int \<Rightarrow> string
     \<Rightarrow> sales_row list" where
  "state_items sales_data orders_data customers_data period_col period_value k =
     map (\<lambda>x. fst (fst x)) (filter (\<lambda>x. c_customer_state (snd x) = Some k)
                (sales_states sales_data orders_data customers_data period_col period_value))"

section \<open>Customer satisfaction\<close>

text \<open>
  The difference of the two timestamps in whole days (\<^verbatim>\<open>.dt.days\<close> rounds towards minus
  infinity), missing when one of the timestamps is.
\<close>

definition delivery_speed :: "sales_row \<Rightarrow> int option" where
  "delivery_speed r =
     (case (order_delivered_customer_date r, order_purchase_timestamp r) of
        (Some d, Some p) \<Rightarrow> Some ((ts_value d - ts_value p) div ns_per_day)
      | _ \<Rightarrow> None)"

subsection \<open>The delivery buckets and the metrics\<close>

text \<open>
  The local function \<^verbatim>\<open>categorize_delivery_speed\<close>. The column it is applied to holds
  whole days, or NaN where a timestamp is missing; every comparison with NaN is false,
  so a missing speed reaches the last branch.
\<close>

definition categorize_delivery_speed :: "int option \<Rightarrow> string" where
  "categorize_delivery_speed days =
     (if (case days of None \<Rightarrow> False | Some d \<Rightarrow> d \<le> 3) then ''1-3 days''
      else if (case days of None \<Rightarrow> False | Some d \<Rightarrow> d \<le> 7) then ''4-7 days''
      else ''8+ days'')"

text \<open>
  The rows of \<^verbatim>\<open>order_satisfaction\<close>: order id, delivery speed and review score.
\<close>

type_synonym satisfaction_row = "string \<times> int option \<times> rat option"

definition sat_order_id :: "satisfaction_row \<Rightarrow> string" where
  "sat_order_id x = fst x"

definition sat_delivery_speed :: "satisfaction_row \<Rightarrow> int option" where
  "sat_delivery_speed x = fst (snd x)"

definition sat_review_score :: "satisfaction_row \<Rightarrow> rat option" where
  "sat_review_score x = snd (snd x)"

definition order_satisfaction ::
  "sales_row list \<Rightarrow> review list \<Rightarrow> (sales_row \<Rightarrow> int option) \<Rightarrow> int \<Rightarrow> satisfaction_row list" where
  "order_satisfaction sales_data reviews_data period_col period_value =
     (let period_data = select_period period_col period_value sales_data;
          satisfaction_data = inner_merge order_id r_order_id period_data reviews_data
      in drop_duplicates
           (map (\<lambda>(s, rv). (order_id s, delivery_speed s, r_review_score rv)) satisfaction_data))"

record satisfaction_metrics =
  avg_review_score :: npfloat
  avg_delivery_time_days :: npfloat
  satisfaction_by_delivery_speed :: "(string \<times> npfloat) list"

definition calculate_customer_satisfaction_metrics ::
  "sales_row list \<Rightarrow> review list \<Rightarrow> (sales_row \<Rightarrow> int option) \<Rightarrow> int \<Rightarrow> satisfaction_metrics" where
  "calculate_customer_satisfaction_metrics sales_data reviews_data period_col period_value =
     (let os = order_satisfaction sales_data reviews_data period_col period_value
      in \<lparr> avg_review_score = np_mean (map sat_review_score os),
           avg_delivery_time_days = np_mean (map (\<lambda>x. map_option of_int (sat_delivery_speed x)) os),
           satisfaction_by_delivery_speed =
             groupby_mean (\<lambda>x. Some (categorize_delivery_speed (sat_delivery_speed x)))
               sat_review_score os \<rparr>)"

section \<open>Example rows and the notions of the specification\<close>

text \<open>
  A delivered order item of order \<open>oid\<close> and product \<open>pid\<close> with price \<open>p\<close>, bought in
  month \<open>m\<close> of year \<open>y\<close> and delivered \<open>days\<close> days later; the examples below are
  tables of such rows.
\<close>

definition sale :: "string \<Rightarrow> string \<Rightarrow> rat \<Rightarrow> int \<Rightarrow> int \<Rightarrow> int \<Rightarrow> sales_row" where
  "sale oid pid p y m days =
     \<lparr> order_id = oid, product_id = pid, price = Some p, freight_value = Some 0,
       total_value = Some p, order_status = Some ''delivered'',
       order_purchase_timestamp = Some \<lparr> ts_year = y, ts_month = m, ts_value = 0 \<rparr>,
       order_delivered_customer_date =
         Some \<lparr> ts_year = y, ts_month = m, ts_value = days * ns_per_day \<rparr>,
       order_year = Some y, order_month = Some m, year = Some y, month = Some m \<rparr>"





text \<open>
  The inclusion predicate of the status filter in the words of the specification: the
  status equals the requested status, or it is "cancelled" and cancelled orders are
  included.
\<close>

definition status_kept :: "string \<Rightarrow> bool \<Rightarrow> sales_row \<Rightarrow> bool" where
  "status_kept filter_status include_cancelled r \<longleftrightarrow>
     order_status r = Some filter_status
     \<or> (include_cancelled \<and> order_status r = Some ''cancelled'')"

text \<open>
  A loader state with three order items, of a delivered order, of a cancelled order and
  of an order that the orders table does not have; the same state without the orders
  table; and a data directory without files.
\<close>

definition example_items :: "order_item list" where
  "example_items =
     [\<lparr> oi_order_id = ''o1'', oi_product_id = ''p1'', oi_price = Some 10,
        oi_freight_value = Some 1, oi_total_value = Some 11 \<rparr>,
      \<lparr> oi_order_id = ''o2'', oi_product_id = ''p2'', oi_price = Some 20,
        oi_freight_value = Some 2, oi_total_value = Some 22 \<rparr>,
      \<lparr> oi_order_id = ''o3'', oi_product_id = ''p1'', oi_price = Some 30,
        oi_freight_value = Some 3, oi_total_value = Some 33 \<rparr>]"

definition example_order :: "string \<Rightarrow> string \<Rightarrow> string \<Rightarrow> order" where
  "example_order oid cid status =
     \<lparr> o_order_id = oid, o_customer_id = cid, o_order_status = Some status,
       o_order_purchase_timestamp = Some \<lparr> ts_year = 2023, ts_month = 5, ts_value = 0 \<rparr>,
       o_order_delivered_customer_date =
         Some \<lparr> ts_year = 2023, ts_month = 5, ts_value = 2 * ns_per_day \<rparr>,
       o_order_year = Some 2023, o_order_month = Some 5 \<rparr>"

definition example_datasets :: datasets where
  "example_datasets =
     \<lparr> orders = Some \<lparr> ot_processed = True,
                       ot_rows = [example_order ''o1'' ''c1'' ''delivered'',
                                  example_order ''o2'' ''c2'' ''cancelled''] \<rparr>,
       order_items = Some example_items,
       products = None, customers = None, reviews = None, payments = None \<rparr>"

definition no_files :: datasets where
  "no_files = \<lparr> orders = None, order_items = None, products = None, customers = None,
                reviews = None, payments = None \<rparr>"

definition example_without_orders :: datasets where
  "example_without_orders = example_datasets\<lparr> orders := None \<rparr>"

text \<open>A review of order \<open>oid\<close> with the given score.\<close>

definition review_of :: "string \<Rightarrow> rat \<Rightarrow> review" where
  "review_of oid score = \<lparr> r_order_id = oid, r_review_score = Some score \<rparr>"

text \<open>
  A sales table with three items of the order o1 and one item of the order o2.
\<close>

definition three_items_one_review :: "sales_row list" where
  "three_items_one_review =
     [sale ''o1'' ''p1'' 10 2023 1 2, sale ''o1'' ''p2'' 20 2023 1 2,
      sale ''o1'' ''p3'' 30 2023 1 2, sale ''o2'' ''p1'' 10 2023 1 2]"

text \<open>
  A product with a category and a customer with a state; the products, orders and
  customers that belong to the sales table above.
\<close>

definition product_of :: "string \<Rightarrow> string \<Rightarrow> product" where
  "product_of pid category = \<lparr> p_product_id = pid, p_product_category_name = Some category \<rparr>"

definition customer_of :: "string \<Rightarrow> string \<Rightarrow> customer" where
  "customer_of cid state = \<lparr> c_customer_id = cid, c_customer_state = Some state \<rparr>"

definition example_products :: "product list" where
  "example_products =
     [product_of ''p1'' ''toys'', product_of ''p2'' ''books'', product_of ''p3'' ''toys'']"

definition example_orders :: "order list" where
  "example_orders =
     [example_order ''o1'' ''c1'' ''delivered'', example_order ''o2'' ''c2'' ''delivered'']"

definition example_customers :: "customer list" where
  "example_customers = [customer_of ''c1'' ''SP'', customer_of ''c2'' ''RJ'']"

section \<open>Auxiliary facts\<close>

subsection \<open>Rounding to float64\<close>

text \<open>
  The rounding is what its name says: the exponent is the one of the number, the number
  divided by the unit of its last place is between \<open>2^52\<close> and \<open>2^53\<close>, and the rounded
  value differs from the number by at most half a unit of the last place.
\<close>

lemma bit_length_pos: "0 < n \<Longrightarrow> bit_length n = Suc (bit_length (n div 2))"
  by (subst bit_length.simps) simp

lemma bit_length_bounds: "0 < n \<Longrightarrow> 2 ^ (bit_length n - 1) \<le> n \<and> n < 2 ^ bit_length n"
proof (induction n rule: less_induct)
  case (less n)
  have bl: "bit_length n = Suc (bit_length (n div 2))"
    using less.prems by (rule bit_length_pos)
  show ?case
  proof (cases "n div 2 = 0")
    case True
    then have "n = 1" using less.prems by (simp add: div_eq_0_iff)
    moreover have "bit_length (0::nat) = 0" by (subst bit_length.simps) simp
    ultimately show ?thesis using bl True by simp
  next
    case False
    then have pos: "0 < n div 2" by simp
    have lt: "n div 2 < n" using less.prems by simp
    from less.IH [OF lt pos] have lo: "2 ^ (bit_length (n div 2) - 1) \<le> n div 2"
      and hi: "n div 2 < 2 ^ bit_length (n div 2)" by simp_all
    have bp: "bit_length (n div 2) = Suc (bit_length (n div 2) - 1)"
      using bit_length_pos [OF pos] by simp
    have "(2::nat) ^ bit_length (n div 2) = 2 * 2 ^ (bit_length (n div 2) - 1)"
      by (subst bp) simp
    also have "\<dots> \<le> 2 * (n div 2)" using lo by simp
    also have "\<dots> \<le> n" by simp
    finally have a: "2 ^ (bit_length n - 1) \<le> n" using bl by simp
    have "Suc (n div 2) \<le> 2 ^ bit_length (n div 2)" using hi by simp
    then have "2 * Suc (n div 2) \<le> 2 * 2 ^ bit_length (n div 2)" by simp
    moreover have "n < 2 * Suc (n div 2)" by simp
    ultimately have b: "n < 2 ^ bit_length n" using bl by simp
    show ?thesis using a b by simp
  qed
qed

lemma round_half_even_near: "\<bar>of_int (round_half_even q) - q\<bar> \<le> 1 / 2"
proof -
  have "of_int \<lfloor>q\<rfloor> \<le> q" "q < of_int \<lfloor>q\<rfloor> + 1" by linarith+
  then show ?thesis
    by (simp add: round_half_even_def Let_def abs_le_iff)
qed

lemma pow2_pos: "0 < pow2 k"
  by (simp add: pow2_def)

lemma pow2_of_nat: "pow2 (int n) = 2 ^ n"
  by (simp add: pow2_def)

lemma pow2_neg_nat: "pow2 (- int n) = 1 / 2 ^ n"
  by (cases n) (simp_all add: pow2_def nat_add_distrib)

lemma binary_exponent_bounds:
  assumes "0 < x"
  shows "pow2 (binary_exponent x) \<le> x \<and> x < pow2 (binary_exponent x + 1)"
proof (cases "1 \<le> x")
  case True
  let ?n = "nat \<lfloor>x\<rfloor>"
  have fl: "1 \<le> \<lfloor>x\<rfloor>" using True by linarith
  then have n: "0 < ?n" by simp
  from bit_length_bounds [OF n] have lo: "2 ^ (bit_length ?n - 1) \<le> ?n"
    and hi: "?n < 2 ^ bit_length ?n" by simp_all
  have bp: "0 < bit_length ?n" using bit_length_pos [OF n] by simp
  have e: "binary_exponent x = int (bit_length ?n - 1)"
    using True bp by (simp add: binary_exponent_def)
  have nx: "(of_nat ?n :: rat) = of_int \<lfloor>x\<rfloor>" using fl by simp
  have "(2::rat) ^ (bit_length ?n - 1) \<le> of_nat ?n"
    using lo by (metis of_nat_le_iff of_nat_numeral of_nat_power)
  also have "\<dots> \<le> x" unfolding nx by linarith
  finally have a: "pow2 (binary_exponent x) \<le> x" by (simp add: e pow2_of_nat)
  have "Suc ?n \<le> 2 ^ bit_length ?n" using hi by (rule Suc_leI)
  then have "(of_nat (Suc ?n) :: rat) \<le> 2 ^ bit_length ?n"
    by (metis of_nat_le_iff of_nat_numeral of_nat_power)
  moreover have "x < of_nat (Suc ?n)" using nx by simp linarith
  ultimately have "x < 2 ^ bit_length ?n" by simp
  moreover have "binary_exponent x + 1 = int (bit_length ?n)" using e bp by simp
  ultimately have b: "x < pow2 (binary_exponent x + 1)" by (simp add: pow2_of_nat)
  show ?thesis using a b by simp
next
  case False
  let ?y = "1 / x"
  let ?m = "nat (\<lceil>?y\<rceil> - 1)"
  have y: "1 < ?y" using False assms by simp
  then have c: "2 \<le> \<lceil>?y\<rceil>" by linarith
  then have m: "0 < ?m" by simp
  from bit_length_bounds [OF m] have lo: "2 ^ (bit_length ?m - 1) \<le> ?m"
    and hi: "?m < 2 ^ bit_length ?m" by simp_all
  have bp: "0 < bit_length ?m" using bit_length_pos [OF m] by simp
  have e: "binary_exponent x = - int (bit_length ?m)"
    using False by (simp add: binary_exponent_def)
  have nn: "0 \<le> \<lceil>?y\<rceil> - 1" using c by linarith
  have mc: "(of_nat ?m :: rat) = of_int \<lceil>?y\<rceil> - 1"
  proof -
    have "(of_nat ?m :: rat) = of_int (int ?m)" by (simp only: of_int_of_nat_eq)
    also have "int ?m = \<lceil>?y\<rceil> - 1" using nn by (rule nat_0_le)
    finally show ?thesis by (simp only: of_int_diff of_int_1)
  qed
  have "Suc ?m \<le> 2 ^ bit_length ?m" using hi by (rule Suc_leI)
  then have "(of_nat (Suc ?m) :: rat) \<le> 2 ^ bit_length ?m"
    by (metis of_nat_le_iff of_nat_numeral of_nat_power)
  moreover have "?y \<le> of_nat (Suc ?m)" using mc by simp
  ultimately have yk: "?y \<le> 2 ^ bit_length ?m" by simp
  have "1 / 2 ^ bit_length ?m \<le> x"
  proof -
    have "1 \<le> x * 2 ^ bit_length ?m"
      using yk assms by (simp add: divide_le_eq mult.commute)
    then show ?thesis by (simp add: divide_le_eq)
  qed
  then have a: "pow2 (binary_exponent x) \<le> x" by (simp add: e pow2_neg_nat)
  have "(2::rat) ^ (bit_length ?m - 1) \<le> of_nat ?m"
    using lo by (metis of_nat_le_iff of_nat_numeral of_nat_power)
  also have "\<dots> < ?y" unfolding mc by linarith
  finally have "x * 2 ^ (bit_length ?m - 1) < 1"
    using assms by (simp add: less_divide_eq mult.commute)
  then have xk: "x < 1 / 2 ^ (bit_length ?m - 1)" by (simp add: less_divide_eq)
  have "binary_exponent x + 1 = - int (bit_length ?m - 1)" using e bp by simp
  then have b: "x < pow2 (binary_exponent x + 1)" using xk by (simp add: pow2_neg_nat)
  show ?thesis using a b by simp
qed

lemma float64_round_error:
  "\<bar>float64_round x - x\<bar> \<le> pow2 (binary_exponent \<bar>x\<bar> - 52) / 2"
proof (cases "x = 0")
  case True
  then show ?thesis using pow2_pos [of "binary_exponent \<bar>x\<bar> - 52"]
    by (simp add: float64_round_def)
next
  case False
  let ?u = "pow2 (binary_exponent \<bar>x\<bar> - 52)"
  let ?r = "round_half_even (\<bar>x\<bar> / ?u)"
  have u: "0 < ?u" by (rule pow2_pos)
  have fr: "float64_round x = sgn x * of_int ?r * ?u"
    using False by (simp add: float64_round_def Let_def)
  have "x = sgn x * (\<bar>x\<bar> / ?u) * ?u"
    using u by (simp add: mult_sgn_abs)
  then have "float64_round x - x = sgn x * ?u * (of_int ?r - \<bar>x\<bar> / ?u)"
    unfolding fr by (simp add: algebra_simps)
  then have "\<bar>float64_round x - x\<bar> = ?u * \<bar>of_int ?r - \<bar>x\<bar> / ?u\<bar>"
    using u False by (simp add: abs_mult abs_sgn_eq)
  also have "\<dots> \<le> ?u * (1 / 2)"
    using u round_half_even_near [of "\<bar>x\<bar> / ?u"] by (intro mult_left_mono) simp_all
  finally show ?thesis by simp
qed

lemma pow2_power_int: "pow2 k = 2 powi k"
  by (simp add: pow2_def power_int_def power_one_over inverse_eq_divide)

lemma significand_range:
  assumes "x \<noteq> 0"
  shows "2 ^ 52 \<le> \<bar>x\<bar> / pow2 (binary_exponent \<bar>x\<bar> - 52)
     \<and> \<bar>x\<bar> / pow2 (binary_exponent \<bar>x\<bar> - 52) < 2 ^ 53"
proof -
  let ?e = "binary_exponent \<bar>x\<bar>"
  have pos: "0 < \<bar>x\<bar>" using assms by simp
  from binary_exponent_bounds [OF pos]
  have lo: "pow2 ?e \<le> \<bar>x\<bar>" and hi: "\<bar>x\<bar> < pow2 (?e + 1)" by simp_all
  have u: "0 < pow2 (?e - 52)" by (rule pow2_pos)
  have a: "pow2 ?e = 2 ^ 52 * pow2 (?e - 52)"
    by (simp add: pow2_power_int power_int_diff)
  have b: "pow2 (?e + 1) = 2 ^ 53 * pow2 (?e - 52)"
    by (simp add: pow2_power_int power_int_diff power_int_add)
  have "2 ^ 52 * pow2 (?e - 52) \<le> \<bar>x\<bar>" using lo a by simp
  then have 1: "2 ^ 52 \<le> \<bar>x\<bar> / pow2 (?e - 52)" using u by (simp add: le_divide_eq)
  have "\<bar>x\<bar> < 2 ^ 53 * pow2 (?e - 52)" using hi b by simp
  then have 2: "\<bar>x\<bar> / pow2 (?e - 52) < 2 ^ 53" using u by (simp add: divide_less_eq)
  show ?thesis using 1 2 by simp
qed

subsection \<open>Groups\<close>

lemma set_group_keys: "set (group_keys key rs) = {k. \<exists>r\<in>set rs. key r = Some k}"
  by (induction rs) (auto simp: group_keys_def map_filter_simps split: option.splits)

lemma distinct_group_keys: "distinct (group_keys key rs)"
  by (simp add: group_keys_def)

lemma sum_groups_finite:
  fixes f :: "'r \<Rightarrow> 'a::comm_monoid_add"
  assumes "finite K"
  shows "(\<Sum>k\<in>K. sum_list (map f (filter (\<lambda>r. key r = Some k) rs)))
       = sum_list (map f (filter (\<lambda>r. key r \<in> Some ` K) rs))"
proof (induction rs)
  case Nil
  show ?case by simp
next
  case (Cons r rs)
  show ?case
  proof (cases "key r")
    case None
    then show ?thesis using Cons.IH by auto
  next
    case (Some k0)
    have "(\<Sum>k\<in>K. sum_list (map f (filter (\<lambda>r. key r = Some k) (r # rs))))
        = (\<Sum>k\<in>K. (if k = k0 then f r else 0) + sum_list (map f (filter (\<lambda>r. key r = Some k) rs)))"
      using Some by (intro sum.cong) auto
    also have "\<dots> = (if k0 \<in> K then f r else 0) + (\<Sum>k\<in>K. sum_list (map f (filter (\<lambda>r. key r = Some k) rs)))"
      using assms by (simp add: sum.distrib)
    finally show ?thesis using Some Cons.IH by auto
  qed
qed

lemma sum_list_group_keys:
  fixes f :: "'r \<Rightarrow> 'a::comm_monoid_add"
  shows "sum_list (map (\<lambda>k. sum_list (map f (group_rows key rs k))) (group_keys key rs))
       = sum_list (map f (filter (\<lambda>r. key r \<noteq> None) rs))"
proof -
  have "sum_list (map (\<lambda>k. sum_list (map f (group_rows key rs k))) (group_keys key rs))
      = (\<Sum>k\<in>set (group_keys key rs). sum_list (map f (filter (\<lambda>r. key r = Some k) rs)))"
    by (simp add: sum_list_distinct_conv_sum_set distinct_group_keys group_rows_def)
  also have "\<dots> = sum_list (map f (filter (\<lambda>r. key r \<in> Some ` set (group_keys key rs)) rs))"
    by (rule sum_groups_finite) simp
  also have "filter (\<lambda>r. key r \<in> Some ` set (group_keys key rs)) rs = filter (\<lambda>r. key r \<noteq> None) rs"
    by (rule filter_cong) (auto simp: set_group_keys)
  finally show ?thesis .
qed

lemma np_sum_map: "np_sum (map col rs) = sum_list (map (\<lambda>r. cell_value (col r)) rs)"
  by (simp add: np_sum_def comp_def)

lemma nunique_card: "nunique xs = card (set xs)"
  by (simp add: nunique_def length_remdups_card_conv)

lemma sale_simps:
  "order_id (sale oid pid p y m days) = oid"
  "product_id (sale oid pid p y m days) = pid"
  "price (sale oid pid p y m days) = Some p"
  "year (sale oid pid p y m days) = Some y"
  "month (sale oid pid p y m days) = Some m"
  by (simp_all add: sale_def)

lemma series_mean_groupby_sum:
  fixes rs :: "sales_row list"
  shows "series_mean (map snd (groupby_sum (\<lambda>r. Some (order_id r)) price rs)) =
     (if rs = [] then NaN
      else Fin ((\<Sum>k\<in>order_id ` set rs. np_sum (map price (filter (\<lambda>r. order_id r = k) rs)))
                / of_nat (card (order_id ` set rs))))"
proof -
  let ?key = "\<lambda>r::sales_row. Some (order_id r)"
  have keys: "set (group_keys ?key rs) = order_id ` set rs"
    by (auto simp: set_group_keys)
  have len: "length (group_keys ?key rs) = card (order_id ` set rs)"
    using distinct_card [OF distinct_group_keys, of ?key rs] keys by simp
  have sum: "sum_list (map snd (groupby_sum ?key price rs))
      = (\<Sum>k\<in>order_id ` set rs. np_sum (map price (filter (\<lambda>r. order_id r = k) rs)))"
    using keys
    by (simp add: groupby_sum_def comp_def group_rows_def
        sum_list_distinct_conv_sum_set distinct_group_keys)
  have empty: "groupby_sum ?key price rs = [] \<longleftrightarrow> rs = []"
    using keys by (simp add: groupby_sum_def flip: set_empty)
  show ?thesis
    using len sum empty by (simp add: series_mean_def groupby_sum_def)
qed

subsection \<open>Relative change of a series\<close>























subsection \<open>The sales table\<close>

lemma filter_by_status_rows:
  assumes "filter_status \<noteq> []" "order_columns t"
  shows "filter_by_status filter_status include_cancelled t
     = Inr (t\<lparr> sales_rows := filter (status_kept filter_status include_cancelled) (sales_rows t) \<rparr>)"
proof -
  have "(\<lambda>r. case order_status r of None \<Rightarrow> False
              | Some s \<Rightarrow> s \<in> set [filter_status, ''cancelled''])
      = status_kept filter_status True"
    by (auto simp: status_kept_def fun_eq_iff split: option.splits)
  moreover have "(\<lambda>r. order_status r = Some filter_status) = status_kept filter_status False"
    by (auto simp: status_kept_def fun_eq_iff)
  ultimately show ?thesis
    using assms by (cases include_cancelled) (simp_all add: filter_by_status_def Let_def)
qed

lemma status_time_columns: "order_status (time_columns r) = order_status r"
  by (simp add: time_columns_def)

lemma create_sales_dataset_rows:
  assumes "order_items (loaded_datasets disk ds) = Some items"
    and "orders (loaded_datasets disk ds) = Some ot"
    and "ot_processed ot"
    and "filter_status \<noteq> []"
  shows "snd (create_sales_dataset disk ds filter_status include_cancelled)
     = Inr \<lparr> order_columns = True, period_columns = True,
             sales_rows = map time_columns
               (filter (status_kept filter_status include_cancelled)
                  (left_merge_orders (map base_row items) (ot_rows ot))) \<rparr>"
  using assms
  by (simp add: create_sales_dataset_def Let_def merge_with_orders_def filter_by_status_rows
      add_time_columns_def)

lemma example_loaded: "loaded_datasets no_files example_datasets = example_datasets"
  by (simp add: loaded_datasets_def datasets_empty_def example_datasets_def)

lemma example_merge:
  "left_merge_orders (map base_row example_items)
     [example_order ''o1'' ''c1'' ''delivered'', example_order ''o2'' ''c2'' ''cancelled'']
   = [with_order (base_row (example_items ! 0)) (example_order ''o1'' ''c1'' ''delivered''),
      with_order (base_row (example_items ! 1)) (example_order ''o2'' ''c2'' ''cancelled''),
      base_row (example_items ! 2)]"
  by (simp add: left_merge_orders_def example_items_def base_row_def example_order_def)

lemma loaded_missing:
  "datasets_empty ds \<Longrightarrow> order_items disk = None \<Longrightarrow> order_items (loaded_datasets disk ds) = None"
  "datasets_empty ds \<Longrightarrow> orders disk = None \<Longrightarrow> orders (loaded_datasets disk ds) = None"
  by (simp_all add: loaded_datasets_def clean_and_process_data_def Let_def load_raw_datasets_def
      load_file_def datasets_empty_def)

lemma example_without_orders_loaded:
  "order_items (loaded_datasets no_files example_without_orders) = Some example_items"
  "orders (loaded_datasets no_files example_without_orders) = None"
  by (simp_all add: loaded_datasets_def datasets_empty_def example_without_orders_def
      example_datasets_def)

subsection \<open>Joins, duplicates and means\<close>

lemma set_drop_duplicates: "set (drop_duplicates xs) = set xs"
  by (simp add: drop_duplicates_def)

lemma distinct_drop_duplicates: "distinct (drop_duplicates xs)"
  by (simp add: drop_duplicates_def)

lemma set_inner_merge:
  "set (inner_merge lkey rkey ls rs) = {(l, r). l \<in> set ls \<and> r \<in> set rs \<and> rkey r = lkey l}"
  by (auto simp: inner_merge_def)

lemma distinct_order_satisfaction: "distinct (order_satisfaction sales_data reviews_data col v)"
  by (simp add: order_satisfaction_def Let_def distinct_drop_duplicates)

lemma np_count_map: "np_count (map f xs) = length (filter (\<lambda>x. f x \<noteq> None) xs)"
  by (simp add: np_count_def filter_map comp_def)

lemma length_filter_remove1:
  "x \<in> set xs \<Longrightarrow> P x \<Longrightarrow> length (filter P xs) = Suc (length (filter P (remove1 x xs)))"
  by (induction xs) auto

lemma np_mean_member:
  assumes "x \<in> set xs" "f x = Some s"
  shows "np_mean (map f xs)
     = Fin ((s + np_sum (map f (remove1 x xs))) / of_nat (Suc (np_count (map f (remove1 x xs)))))"
proof -
  have "np_sum (map f xs) = s + np_sum (map f (remove1 x xs))"
    using sum_list_map_remove1 [OF assms(1), of "\<lambda>r. cell_value (f r)"] assms(2)
    by (simp add: np_sum_def comp_def cell_value_def)
  moreover have "np_count (map f xs) = Suc (np_count (map f (remove1 x xs)))"
    using length_filter_remove1 [OF assms(1), of "\<lambda>x. f x \<noteq> None"] assms(2)
    by (simp add: np_count_map)
  ultimately show ?thesis by (simp add: np_mean_def)
qed

lemma map_of_groupby_mean:
  "map_of (groupby_mean key col rs) k
     = (if k \<in> set (group_keys key rs) then Some (np_mean (map col (group_rows key rs k)))
        else None)"
  by (simp add: groupby_mean_def map_of_map_restrict restrict_map_def)

lemma speed_sale: "delivery_speed (sale oid pid p y m days) = Some days"
  by (simp add: delivery_speed_def sale_def ns_per_day_def)

lemma early_delivery_rows:
  "order_satisfaction [sale ''o1'' ''p1'' 10 2023 1 (- 1)] [review_of ''o1'' 4] year 2023
     = [(''o1'', Some (- 1), Some 4)]"
  by (simp add: order_satisfaction_def Let_def select_period_def inner_merge_def sale_simps
      speed_sale review_of_def drop_duplicates_def)

lemma distinct_singleton_set:
  assumes "distinct xs" "set xs = {t}"
  shows "xs = [t]"
proof -
  have "length xs = card (set xs)" using assms(1) by (simp add: distinct_card)
  then have "length xs = 1" using assms(2) by simp
  then obtain x where x: "xs = [x]" by (cases xs) auto
  then have "x \<in> {t}" using assms(2) by (simp only: list.set insert_iff simp_thms flip: assms(2))
  then show ?thesis using x by simp
qed

lemma mem_order_satisfaction:
  "x \<in> set (order_satisfaction sales_data reviews_data col v) \<longleftrightarrow>
     (\<exists>s\<in>set sales_data. \<exists>rv\<in>set reviews_data.
        col s = Some v \<and> r_order_id rv = order_id s
        \<and> x = (order_id s, delivery_speed s, r_review_score rv))"
proof -
  have "set (order_satisfaction sales_data reviews_data col v)
      = (\<lambda>(s, rv). (order_id s, delivery_speed s, r_review_score rv))
          ` {(l, r). l \<in> set (select_period col v sales_data) \<and> r \<in> set reviews_data
                     \<and> r_order_id r = order_id l}"
    by (simp add: order_satisfaction_def Let_def set_drop_duplicates set_inner_merge)
  then show ?thesis
    by (auto simp: select_period_def)
qed

lemma three_items_rows:
  "order_satisfaction three_items_one_review [review_of ''o1'' 5, review_of ''o2'' 3] year 2023
     = [(''o1'', Some 2, Some 5), (''o2'', Some 2, Some 3)]"
  by (simp add: order_satisfaction_def Let_def select_period_def inner_merge_def sale_simps
      speed_sale review_of_def drop_duplicates_def three_items_one_review_def)

text \<open>
  An order of the period whose items all have the same delivery speed and whose reviews
  all have the same score has exactly one row in the deduplicated table; so has the
  order with three items and one review of the example.
\<close>

lemma order_satisfaction_uniform_order:
  "distinct (order_satisfaction sales_data reviews_data col v)
   \<and> ((\<exists>s\<in>set sales_data. col s = Some v \<and> order_id s = oid)
        \<and> (\<exists>rv\<in>set reviews_data. r_order_id rv = oid)
        \<and> (\<forall>s\<in>set sales_data. col s = Some v \<and> order_id s = oid \<longrightarrow> delivery_speed s = d)
        \<and> (\<forall>rv\<in>set reviews_data. r_order_id rv = oid \<longrightarrow> r_review_score rv = sc)
       \<longrightarrow> filter (\<lambda>x. sat_order_id x = oid)
             (order_satisfaction sales_data reviews_data col v) = [(oid, d, sc)])"
proof (intro conjI impI)
  show "distinct (order_satisfaction sales_data reviews_data col v)"
    by (rule distinct_order_satisfaction)
next
  let ?os = "order_satisfaction sales_data reviews_data col v"
  assume h: "(\<exists>s\<in>set sales_data. col s = Some v \<and> order_id s = oid)
        \<and> (\<exists>rv\<in>set reviews_data. r_order_id rv = oid)
        \<and> (\<forall>s\<in>set sales_data. col s = Some v \<and> order_id s = oid \<longrightarrow> delivery_speed s = d)
        \<and> (\<forall>rv\<in>set reviews_data. r_order_id rv = oid \<longrightarrow> r_review_score rv = sc)"
  then obtain s0 rv0 where s0: "s0 \<in> set sales_data" "col s0 = Some v" "order_id s0 = oid"
    and rv0: "rv0 \<in> set reviews_data" "r_order_id rv0 = oid"
    by blast
  have sp: "\<And>s. s \<in> set sales_data \<Longrightarrow> col s = Some v \<Longrightarrow> order_id s = oid
              \<Longrightarrow> delivery_speed s = d"
    using h by blast
  have sc: "\<And>rv. rv \<in> set reviews_data \<Longrightarrow> r_order_id rv = oid \<Longrightarrow> r_review_score rv = sc"
    using h by blast
  have in_os: "(oid, d, sc) \<in> set ?os"
    unfolding mem_order_satisfaction
    using s0 rv0 sp [OF s0] sc [OF rv0] by (intro bexI [of _ s0] bexI [of _ rv0]) simp_all
  have only: "\<And>x. x \<in> set ?os \<Longrightarrow> sat_order_id x = oid \<Longrightarrow> x = (oid, d, sc)"
  proof -
    fix x assume "x \<in> set ?os" and xo: "sat_order_id x = oid"
    then obtain s rv where s: "s \<in> set sales_data" "col s = Some v"
      and rv: "rv \<in> set reviews_data" "r_order_id rv = order_id s"
      and x: "x = (order_id s, delivery_speed s, r_review_score rv)"
      unfolding mem_order_satisfaction by blast
    have o: "order_id s = oid" using xo x by (simp add: sat_order_id_def)
    have "delivery_speed s = d" using sp [OF s o] .
    moreover have "r_review_score rv = sc" using sc [OF rv(1)] rv(2) o by simp
    ultimately show "x = (oid, d, sc)" using x o by simp
  qed
  have "set (filter (\<lambda>x. sat_order_id x = oid) ?os) = {(oid, d, sc)}"
  proof (rule set_eqI)
    fix x
    show "x \<in> set (filter (\<lambda>x. sat_order_id x = oid) ?os) \<longleftrightarrow> x \<in> {(oid, d, sc)}"
    proof
      assume "x \<in> set (filter (\<lambda>x. sat_order_id x = oid) ?os)"
      then have "x \<in> set ?os" "sat_order_id x = oid" by simp_all
      then have "x = (oid, d, sc)" by (rule only)
      then show "x \<in> {(oid, d, sc)}" by simp
    next
      assume "x \<in> {(oid, d, sc)}"
      then have "x = (oid, d, sc)" by simp
      then show "x \<in> set (filter (\<lambda>x. sat_order_id x = oid) ?os)"
        using in_os by (simp add: sat_order_id_def)
    qed
  qed
  moreover have "distinct (filter (\<lambda>x. sat_order_id x = oid) ?os)"
    using distinct_order_satisfaction [of sales_data reviews_data col v] by simp
  ultimately show "filter (\<lambda>x. sat_order_id x = oid) ?os = [(oid, d, sc)]"
    by (intro distinct_singleton_set)
qed

lemma three_items_one_review_one_row:
  "filter (\<lambda>x. sat_order_id x = ''o1'')
     (order_satisfaction three_items_one_review [review_of ''o1'' 5, review_of ''o2'' 3] year 2023)
     = [(''o1'', Some 2, Some 5)]
   \<and> avg_review_score (calculate_customer_satisfaction_metrics three_items_one_review
        [review_of ''o1'' 5, review_of ''o2'' 3] year 2023) = Fin 4"
proof -
  have a: "\<exists>s\<in>set three_items_one_review. year s = Some 2023 \<and> order_id s = ''o1''"
    by (simp add: three_items_one_review_def sale_simps)
  have b: "\<exists>rv\<in>set [review_of ''o1'' 5, review_of ''o2'' 3]. r_order_id rv = ''o1''"
    by (simp add: review_of_def)
  have c: "\<forall>s\<in>set three_items_one_review.
             year s = Some 2023 \<and> order_id s = ''o1'' \<longrightarrow> delivery_speed s = Some 2"
    by (simp add: three_items_one_review_def sale_simps speed_sale)
  have d: "\<forall>rv\<in>set [review_of ''o1'' 5, review_of ''o2'' 3].
             r_order_id rv = ''o1'' \<longrightarrow> r_review_score rv = Some 5"
    by (simp add: review_of_def)
  from order_satisfaction_uniform_order
         [where sales_data = three_items_one_review
            and reviews_data = "[review_of ''o1'' 5, review_of ''o2'' 3]"
            and col = year and v = 2023 and oid = "''o1''" and d = "Some 2" and sc = "Some 5"]
       a b c d
  have 1: "filter (\<lambda>x. sat_order_id x = ''o1'')
     (order_satisfaction three_items_one_review [review_of ''o1'' 5, review_of ''o2'' 3] year 2023)
     = [(''o1'', Some 2, Some 5)]"
    by blast
  have 2: "avg_review_score (calculate_customer_satisfaction_metrics three_items_one_review
        [review_of ''o1'' 5, review_of ''o2'' 3] year 2023) = Fin 4"
    by (simp add: calculate_customer_satisfaction_metrics_def Let_def three_items_rows
        sat_review_score_def np_mean_def np_sum_def np_count_def cell_value_def)
  show ?thesis using 1 2 by simp
qed

subsection \<open>Sums over joins and groups\<close>

lemma sum_list_sort_key:
  fixes f :: "'a \<Rightarrow> 'b::comm_monoid_add"
  shows "sum_list (map f (sort_key k xs)) = sum_list (map f xs)"
proof -
  have "sum_list (map f (sort_key k xs)) = sum_mset (image_mset f (mset (sort_key k xs)))"
    by (metis mset_map sum_mset_sum_list)
  also have "\<dots> = sum_mset (image_mset f (mset xs))" by simp
  also have "\<dots> = sum_list (map f xs)" by (metis mset_map sum_mset_sum_list)
  finally show ?thesis .
qed

lemma sum_list_filter_if:
  fixes f :: "'a \<Rightarrow> 'b::comm_monoid_add"
  shows "sum_list (map f (filter P xs)) = sum_list (map (\<lambda>x. if P x then f x else 0) xs)"
  by (induction xs) simp_all

lemma sum_inner_merge:
  fixes h :: "'a \<times> 'b \<Rightarrow> 'c::comm_monoid_add"
  shows "sum_list (map h (inner_merge lkey rkey ls rs))
     = sum_list (map (\<lambda>l. sum_list (map (\<lambda>r. h (l, r)) (filter (\<lambda>r. rkey r = lkey l) rs))) ls)"
  by (induction ls) (simp_all add: inner_merge_def comp_def)

lemma sum_list_swap:
  fixes g :: "'a \<Rightarrow> 'b \<Rightarrow> 'c::comm_monoid_add"
  shows "sum_list (map (\<lambda>l. sum_list (map (\<lambda>r. g l r) rs)) ls)
       = sum_list (map (\<lambda>r. sum_list (map (\<lambda>l. g l r) ls)) rs)"
  by (induction ls) (simp_all add: sum_list_addf)

lemma sum_list_cong:
  fixes f :: "'a \<Rightarrow> 'b::comm_monoid_add"
  assumes "\<And>x. x \<in> set xs \<Longrightarrow> f x = g x"
  shows "sum_list (map f xs) = sum_list (map g xs)"
  using assms by (induction xs) simp_all

lemma mset_as_sum_list: "sum_list (map (\<lambda>x. {#x#}) xs) = mset xs"
  by (induction xs) simp_all

lemma np_count_as_sum_list:
  "np_count (map col xs) = sum_list (map (\<lambda>x. if col x = None then 0 else (1::nat)) xs)"
  by (induction xs) (simp_all add: np_count_def)

lemma agg_row:
  assumes "g \<in> set (sort_by_revenue_desc (agg_sum_count_mean rows))"
  shows "total_revenue g = np_sum (map snd (group_rows fst rows (perf_group g)))
     \<and> total_orders g = np_count (map snd (group_rows fst rows (perf_group g)))"
  using assms by (auto simp: sort_by_revenue_desc_def agg_sum_count_mean_def Let_def)

lemma distinct_groups:
  "distinct (map perf_group (sort_by_revenue_desc (agg_sum_count_mean rows)))"
proof -
  have "map perf_group (agg_sum_count_mean rows) = group_keys fst rows"
    by (simp add: agg_sum_count_mean_def comp_def Let_def)
  then have "distinct (map perf_group (agg_sum_count_mean rows))"
    by (simp add: distinct_group_keys)
  then show ?thesis
    by (simp add: sort_by_revenue_desc_def distinct_map)
qed

lemma sum_over_groups:
  fixes F :: "string \<Rightarrow> 'a::comm_monoid_add"
  shows "sum_list (map (\<lambda>g. F (perf_group g)) (sort_by_revenue_desc (agg_sum_count_mean rows)))
       = sum_list (map F (group_keys fst rows))"
  by (simp add: sort_by_revenue_desc_def sum_list_sort_key agg_sum_count_mean_def comp_def
      Let_def)

lemma map_filter_map: "List.map_filter f (map h xs) = List.map_filter (\<lambda>x. f (h x)) xs"
  by (induction xs) (simp_all add: map_filter_simps split: option.splits)

lemma group_keys_map: "group_keys fst (map h xs) = group_keys (\<lambda>x. fst (h x)) xs"
  by (simp add: group_keys_def map_filter_map)

lemma group_rows_map:
  "map snd (group_rows fst (map h xs) k)
     = map (\<lambda>x. snd (h x)) (filter (\<lambda>x. fst (h x) = Some k) xs)"
  by (simp add: group_rows_def filter_map comp_def)

lemma category_row:
  assumes "g \<in> set (calculate_product_category_performance sales_data products_data col v)"
  shows "total_revenue g
       = np_sum (map price (category_items sales_data products_data col v (perf_group g)))
     \<and> total_orders g
       = np_count (map price (category_items sales_data products_data col v (perf_group g)))"
  using agg_row [OF assms [unfolded calculate_product_category_performance_def]]
  by (simp add: group_rows_map category_items_def case_prod_unfold comp_def)

lemma geographic_row:
  assumes "g \<in> set (calculate_geographic_performance sales_data orders_data customers_data col v)"
  shows "total_revenue g
       = np_sum (map price (state_items sales_data orders_data customers_data col v (perf_group g)))
     \<and> total_orders g
       = np_count (map price
           (state_items sales_data orders_data customers_data col v (perf_group g)))"
  using agg_row [OF assms [unfolded calculate_geographic_performance_def]]
  by (simp add: group_rows_map state_items_def case_prod_unfold comp_def)

lemma category_fold:
  fixes f :: "sales_row \<Rightarrow> 'a::comm_monoid_add"
  assumes H: "\<And>s. s \<in> set sales_data \<Longrightarrow> col s = Some v \<Longrightarrow>
      \<exists>p. filter (\<lambda>p. p_product_id p = product_id s) products_data = [p]
          \<and> p_product_category_name p \<noteq> None"
  shows "sum_list (map (\<lambda>g. sum_list (map f
             (category_items sales_data products_data col v (perf_group g))))
           (calculate_product_category_performance sales_data products_data col v))
       = sum_list (map f (select_period col v sales_data))"
proof -
  let ?period = "select_period col v sales_data"
  let ?cs = "category_sales sales_data products_data col v"
  let ?key = "\<lambda>x::product \<times> sales_row. p_product_category_name (fst x)"
  let ?h = "\<lambda>p s. if p_product_category_name p \<noteq> None then f s else 0"
  have "sum_list (map (\<lambda>g. sum_list (map f
             (category_items sales_data products_data col v (perf_group g))))
           (calculate_product_category_performance sales_data products_data col v))
      = sum_list (map (\<lambda>k. sum_list (map (\<lambda>x. f (snd x)) (group_rows ?key ?cs k)))
           (group_keys ?key ?cs))"
    using sum_over_groups [of "\<lambda>k. sum_list (map (\<lambda>x. f (snd x)) (group_rows ?key ?cs k))"
        "map (\<lambda>(p, s). (p_product_category_name p, price s)) ?cs"]
    by (simp add: calculate_product_category_performance_def group_keys_map
        category_items_def group_rows_def case_prod_unfold comp_def)
  also have "\<dots> = sum_list (map (\<lambda>x. f (snd x)) (filter (\<lambda>x. ?key x \<noteq> None) ?cs))"
    by (rule sum_list_group_keys)
  also have "\<dots> = sum_list (map (\<lambda>x. ?h (fst x) (snd x)) ?cs)"
    by (simp add: sum_list_filter_if)
  also have "\<dots> = sum_list (map (\<lambda>p. sum_list (map (\<lambda>s. ?h p s)
                 (filter (\<lambda>s. product_id s = p_product_id p) ?period))) products_data)"
    using sum_inner_merge [of "\<lambda>x. ?h (fst x) (snd x)" p_product_id product_id products_data
        ?period]
    by (simp add: category_sales_def Let_def cong: if_cong)
  also have "\<dots> = sum_list (map (\<lambda>p. sum_list (map
                 (\<lambda>s. if product_id s = p_product_id p then ?h p s else 0) ?period)) products_data)"
    by (simp only: sum_list_filter_if)
  also have "\<dots> = sum_list (map (\<lambda>s. sum_list (map
                 (\<lambda>p. if product_id s = p_product_id p then ?h p s else 0) products_data)) ?period)"
    by (rule sum_list_swap)
  also have "\<dots> = sum_list (map (\<lambda>s. sum_list (map (\<lambda>p. ?h p s)
                 (filter (\<lambda>p. product_id s = p_product_id p) products_data))) ?period)"
    by (simp only: sum_list_filter_if)
  also have "\<dots> = sum_list (map f ?period)"
  proof (rule sum_list_cong)
    fix s assume "s \<in> set ?period"
    then have "s \<in> set sales_data" "col s = Some v" by (simp_all add: select_period_def)
    from H [OF this] obtain p
      where p: "filter (\<lambda>p. p_product_id p = product_id s) products_data = [p]"
        and c: "p_product_category_name p \<noteq> None"
      by blast
    have e: "(\<lambda>p. product_id s = p_product_id p) = (\<lambda>p. p_product_id p = product_id s)"
      by auto
    show "sum_list (map (\<lambda>p. ?h p s)
            (filter (\<lambda>p. product_id s = p_product_id p) products_data)) = f s"
      unfolding e p using c by simp
  qed
  finally show ?thesis .
qed

lemma geographic_fold:
  fixes f :: "sales_row \<Rightarrow> 'a::comm_monoid_add"
  assumes H: "\<And>s. s \<in> set sales_data \<Longrightarrow> col s = Some v \<Longrightarrow>
      \<exists>ord c. filter (\<lambda>ord. o_order_id ord = order_id s) orders_data = [ord]
          \<and> filter (\<lambda>c. c_customer_id c = o_customer_id ord) customers_data = [c]
          \<and> c_customer_state c \<noteq> None"
  shows "sum_list (map (\<lambda>g. sum_list (map f
             (state_items sales_data orders_data customers_data col v (perf_group g))))
           (calculate_geographic_performance sales_data orders_data customers_data col v))
       = sum_list (map f (select_period col v sales_data))"
proof -
  let ?period = "select_period col v sales_data"
  let ?ss = "sales_states sales_data orders_data customers_data col v"
  let ?sc = "inner_merge order_id o_order_id ?period orders_data"
  let ?key = "\<lambda>x::(sales_row \<times> order) \<times> customer. c_customer_state (snd x)"
  let ?h = "\<lambda>c s. if c_customer_state c \<noteq> None then f s else 0"
  let ?G = "\<lambda>x. sum_list (map (\<lambda>c. ?h c (fst x))
              (filter (\<lambda>c. c_customer_id c = o_customer_id (snd x)) customers_data))"
  have "sum_list (map (\<lambda>g. sum_list (map f
             (state_items sales_data orders_data customers_data col v (perf_group g))))
           (calculate_geographic_performance sales_data orders_data customers_data col v))
      = sum_list (map (\<lambda>k. sum_list (map (\<lambda>x. f (fst (fst x))) (group_rows ?key ?ss k)))
           (group_keys ?key ?ss))"
    using sum_over_groups [of "\<lambda>k. sum_list (map (\<lambda>x. f (fst (fst x))) (group_rows ?key ?ss k))"
        "map (\<lambda>((s, ord), c). (c_customer_state c, price s)) ?ss"]
    by (simp add: calculate_geographic_performance_def group_keys_map
        state_items_def group_rows_def case_prod_unfold comp_def)
  also have "\<dots> = sum_list (map (\<lambda>x. f (fst (fst x))) (filter (\<lambda>x. ?key x \<noteq> None) ?ss))"
    by (rule sum_list_group_keys)
  also have "\<dots> = sum_list (map (\<lambda>x. ?h (snd x) (fst (fst x))) ?ss)"
    by (simp add: sum_list_filter_if)
  also have "\<dots> = sum_list (map ?G ?sc)"
    using sum_inner_merge [of "\<lambda>x. ?h (snd x) (fst (fst x))" "\<lambda>x. o_customer_id (snd x)"
        c_customer_id ?sc customers_data]
    by (simp add: sales_states_def Let_def case_prod_unfold cong: if_cong)
  also have "\<dots> = sum_list (map (\<lambda>s. sum_list (map (\<lambda>ord. ?G (s, ord))
                 (filter (\<lambda>ord. o_order_id ord = order_id s) orders_data))) ?period)"
    by (rule sum_inner_merge)
  also have "\<dots> = sum_list (map f ?period)"
  proof (rule sum_list_cong)
    fix s assume "s \<in> set ?period"
    then have "s \<in> set sales_data" "col s = Some v" by (simp_all add: select_period_def)
    from H [OF this] obtain ord c
      where a: "filter (\<lambda>ord. o_order_id ord = order_id s) orders_data = [ord]"
        and b: "filter (\<lambda>c. c_customer_id c = o_customer_id ord) customers_data = [c]"
        and c: "c_customer_state c \<noteq> None"
      by blast
    show "sum_list (map (\<lambda>ord. ?G (s, ord))
            (filter (\<lambda>ord. o_order_id ord = order_id s) orders_data)) = f s"
      unfolding a using b c by simp
  qed
  finally show ?thesis .
qed

lemma category_counts:
  assumes H: "\<And>s. s \<in> set sales_data \<Longrightarrow> col s = Some v \<Longrightarrow>
      \<exists>p. filter (\<lambda>p. p_product_id p = product_id s) products_data = [p]
          \<and> p_product_category_name p \<noteq> None"
  shows "sum_list (map total_orders
           (calculate_product_category_performance sales_data products_data col v))
       = np_count (map price (select_period col v sales_data))"
proof -
  have "sum_list (map total_orders
           (calculate_product_category_performance sales_data products_data col v))
      = sum_list (map (\<lambda>g. sum_list (map (\<lambda>x. if price x = None then 0 else (1::nat))
             (category_items sales_data products_data col v (perf_group g))))
           (calculate_product_category_performance sales_data products_data col v))"
    by (rule sum_list_cong) (simp add: category_row np_count_as_sum_list)
  then show ?thesis
    using category_fold [of sales_data col v products_data
        "\<lambda>x. if price x = None then 0 else (1::nat)", OF H]
    by (simp add: np_count_as_sum_list)
qed

lemma geographic_counts:
  assumes H: "\<And>s. s \<in> set sales_data \<Longrightarrow> col s = Some v \<Longrightarrow>
      \<exists>ord c. filter (\<lambda>ord. o_order_id ord = order_id s) orders_data = [ord]
          \<and> filter (\<lambda>c. c_customer_id c = o_customer_id ord) customers_data = [c]
          \<and> c_customer_state c \<noteq> None"
  shows "sum_list (map total_orders
           (calculate_geographic_performance sales_data orders_data customers_data col v))
       = np_count (map price (select_period col v sales_data))"
proof -
  have "sum_list (map total_orders
           (calculate_geographic_performance sales_data orders_data customers_data col v))
      = sum_list (map (\<lambda>g. sum_list (map (\<lambda>x. if price x = None then 0 else (1::nat))
             (state_items sales_data orders_data customers_data col v (perf_group g))))
           (calculate_geographic_performance sales_data orders_data customers_data col v))"
    by (rule sum_list_cong) (simp add: geographic_row np_count_as_sum_list)
  then show ?thesis
    using geographic_fold [of sales_data col v orders_data customers_data
        "\<lambda>x. if price x = None then 0 else (1::nat)", OF H]
    by (simp add: np_count_as_sum_list)
qed

lemma example_period_count:
  "np_count (map price (select_period year 2023 three_items_one_review)) = 4"
  by (simp add: np_count_def select_period_def three_items_one_review_def sale_simps)

lemma example_products_unique:
  "\<forall>s\<in>set three_items_one_review. year s = Some 2023 \<longrightarrow>
        (\<exists>p. filter (\<lambda>p. p_product_id p = product_id s) example_products = [p]
           \<and> p_product_category_name p \<noteq> None)"
  by (simp add: three_items_one_review_def sale_simps example_products_def product_of_def)

lemma example_customers_unique:
  "\<forall>s\<in>set three_items_one_review. year s = Some 2023 \<longrightarrow>
        (\<exists>ord c. filter (\<lambda>ord. o_order_id ord = order_id s) example_orders = [ord]
           \<and> filter (\<lambda>c. c_customer_id c = o_customer_id ord) example_customers = [c]
           \<and> c_customer_state c \<noteq> None)"
  by (simp add: three_items_one_review_def sale_simps example_orders_def example_order_def
      example_customers_def customer_of_def)

section \<open>Properties\<close>

text \<open>
  Claim C1, as amended. Each row of the category table and of the state table stands for
  one group, no group has two rows, and its total revenue and its item count are the sum
  and the number of the prices of the line items that the join puts into the group.
  When every sales row of the period has exactly one row with its product id in the
  products table, and that row has a category name, the line items of the category
  groups together are the sales rows of the period, each exactly once, and the item
  counts of the groups sum to the number of sales rows of the period that have a price.
  When every sales row of the period has exactly one row with its order id in the orders
  table, and the customer id of that order has exactly one row in the customers table,
  with a state, the same holds of the state groups.
\<close>

theorem performance_groups_partition_period_items:
  "(\<forall>g\<in>set (calculate_product_category_performance sales_data products_data col v).
       total_revenue g
         = np_sum (map price (category_items sales_data products_data col v (perf_group g)))
       \<and> total_orders g
         = np_count (map price (category_items sales_data products_data col v (perf_group g))))
   \<and> distinct (map perf_group
         (calculate_product_category_performance sales_data products_data col v))
   \<and> ((\<forall>s\<in>set sales_data. col s = Some v \<longrightarrow>
        (\<exists>p. filter (\<lambda>p. p_product_id p = product_id s) products_data = [p]
           \<and> p_product_category_name p \<noteq> None))
     \<longrightarrow> (\<Sum>g\<leftarrow>calculate_product_category_performance sales_data products_data col v.
            mset (category_items sales_data products_data col v (perf_group g)))
           = mset (select_period col v sales_data)
         \<and> sum_list (map total_orders
              (calculate_product_category_performance sales_data products_data col v))
           = np_count (map price (select_period col v sales_data)))
   \<and> (\<forall>g\<in>set (calculate_geographic_performance sales_data orders_data customers_data col v).
       total_revenue g
         = np_sum (map price
             (state_items sales_data orders_data customers_data col v (perf_group g)))
       \<and> total_orders g
         = np_count (map price
             (state_items sales_data orders_data customers_data col v (perf_group g))))
   \<and> distinct (map perf_group
         (calculate_geographic_performance sales_data orders_data customers_data col v))
   \<and> ((\<forall>s\<in>set sales_data. col s = Some v \<longrightarrow>
        (\<exists>ord c. filter (\<lambda>ord. o_order_id ord = order_id s) orders_data = [ord]
           \<and> filter (\<lambda>c. c_customer_id c = o_customer_id ord) customers_data = [c]
           \<and> c_customer_state c \<noteq> None))
     \<longrightarrow> (\<Sum>g\<leftarrow>calculate_geographic_performance sales_data orders_data customers_data col v.
            mset (state_items sales_data orders_data customers_data col v (perf_group g)))
           = mset (select_period col v sales_data)
         \<and> sum_list (map total_orders
              (calculate_geographic_performance sales_data orders_data customers_data col v))
           = np_count (map price (select_period col v sales_data)))"
proof (intro conjI impI ballI)
  fix g assume "g \<in> set (calculate_product_category_performance sales_data products_data col v)"
  then show "total_revenue g
         = np_sum (map price (category_items sales_data products_data col v (perf_group g)))"
    and "total_orders g
         = np_count (map price (category_items sales_data products_data col v (perf_group g)))"
    by (simp_all add: category_row)
next
  show "distinct (map perf_group
         (calculate_product_category_performance sales_data products_data col v))"
    unfolding calculate_product_category_performance_def by (rule distinct_groups)
next
  assume "\<forall>s\<in>set sales_data. col s = Some v \<longrightarrow>
        (\<exists>p. filter (\<lambda>p. p_product_id p = product_id s) products_data = [p]
           \<and> p_product_category_name p \<noteq> None)"
  then have H: "\<And>s. s \<in> set sales_data \<Longrightarrow> col s = Some v \<Longrightarrow>
      \<exists>p. filter (\<lambda>p. p_product_id p = product_id s) products_data = [p]
          \<and> p_product_category_name p \<noteq> None"
    by blast
  show "(\<Sum>g\<leftarrow>calculate_product_category_performance sales_data products_data col v.
            mset (category_items sales_data products_data col v (perf_group g)))
           = mset (select_period col v sales_data)"
    using category_fold [of sales_data col v products_data "\<lambda>x. {#x#}", OF H]
    by (simp add: mset_as_sum_list)
  show "sum_list (map total_orders
              (calculate_product_category_performance sales_data products_data col v))
           = np_count (map price (select_period col v sales_data))"
    using H by (rule category_counts)
next
  fix g
  assume "g \<in> set (calculate_geographic_performance sales_data orders_data customers_data col v)"
  then show "total_revenue g
         = np_sum (map price
             (state_items sales_data orders_data customers_data col v (perf_group g)))"
    and "total_orders g
         = np_count (map price
             (state_items sales_data orders_data customers_data col v (perf_group g)))"
    by (simp_all add: geographic_row)
next
  show "distinct (map perf_group
         (calculate_geographic_performance sales_data orders_data customers_data col v))"
    unfolding calculate_geographic_performance_def by (rule distinct_groups)
next
  assume "\<forall>s\<in>set sales_data. col s = Some v \<longrightarrow>
        (\<exists>ord c. filter (\<lambda>ord. o_order_id ord = order_id s) orders_data = [ord]
           \<and> filter (\<lambda>c. c_customer_id c = o_customer_id ord) customers_data = [c]
           \<and> c_customer_state c \<noteq> None)"
  then have H: "\<And>s. s \<in> set sales_data \<Longrightarrow> col s = Some v \<Longrightarrow>
      \<exists>ord c. filter (\<lambda>ord. o_order_id ord = order_id s) orders_data = [ord]
          \<and> filter (\<lambda>c. c_customer_id c = o_customer_id ord) customers_data = [c]
          \<and> c_customer_state c \<noteq> None"
    by blast
  show "(\<Sum>g\<leftarrow>calculate_geographic_performance sales_data orders_data customers_data col v.
            mset (state_items sales_data orders_data customers_data col v (perf_group g)))
           = mset (select_period col v sales_data)"
    using geographic_fold [of sales_data col v orders_data customers_data "\<lambda>x. {#x#}", OF H]
    by (simp add: mset_as_sum_list)
  show "sum_list (map total_orders
              (calculate_geographic_performance sales_data orders_data customers_data col v))
           = np_count (map price (select_period col v sales_data))"
    using H by (rule geographic_counts)
qed

text \<open>
  Four items of two orders, three products, two customers: in both tables the groups
  hold the four items, each once.
\<close>

theorem performance_groups_partition_period_items_witness:
  "(\<Sum>g\<leftarrow>calculate_product_category_performance three_items_one_review example_products
          year 2023.
      mset (category_items three_items_one_review example_products year 2023 (perf_group g)))
     = mset (select_period year 2023 three_items_one_review)
   \<and> sum_list (map total_orders
        (calculate_product_category_performance three_items_one_review example_products
           year 2023)) = 4
   \<and> (\<Sum>g\<leftarrow>calculate_geographic_performance three_items_one_review example_orders
          example_customers year 2023.
      mset (state_items three_items_one_review example_orders example_customers year 2023
              (perf_group g)))
     = mset (select_period year 2023 three_items_one_review)
   \<and> sum_list (map total_orders
        (calculate_geographic_performance three_items_one_review example_orders
           example_customers year 2023)) = 4"
  using performance_groups_partition_period_items
          [where sales_data = three_items_one_review and col = year and v = 2023
             and products_data = example_products and orders_data = example_orders
             and customers_data = example_customers]
        example_products_unique example_customers_unique example_period_count
  by simp

text \<open>
  Claim C1 as it is written fails. An item whose product id is not in the products table
  is dropped by the inner join: the period revenue is 10 and the category table is empty.
  An item whose product id has two rows in the products table is counted twice: the
  period revenue is 10 and the category total is 20.
\<close>

theorem performance_totals_lost_and_double_counted:
  "np_sum (map price (select_period year 2023 [sale ''o1'' ''p1'' 10 2023 1 2])) = 10
   \<and> calculate_product_category_performance [sale ''o1'' ''p1'' 10 2023 1 2]
           [product_of ''p2'' ''toys''] year 2023 = []
   \<and> calculate_product_category_performance [sale ''o1'' ''p1'' 10 2023 1 2]
           [product_of ''p1'' ''toys'', product_of ''p1'' ''toys''] year 2023
       = [\<lparr> perf_group = ''toys'', total_revenue = 20, total_orders = 2,
            avg_order_value = Fin 10 \<rparr>]"
  by (simp add: calculate_product_category_performance_def category_sales_def Let_def
      agg_sum_count_mean_def sort_by_revenue_desc_def group_keys_def group_rows_def
      map_filter_simps select_period_def inner_merge_def sale_simps product_of_def np_sum_def
      np_count_def np_mean_def cell_value_def)

text \<open>
  Claim C2. When the loader has the order items and the processed orders table and the
  requested status is not empty, \<^verbatim>\<open>create_sales_dataset\<close> returns a table, and a row
  is in it if and only if it is a row of the left join of the order items with the orders
  (with its period columns) whose status equals the requested status, or equals
  "cancelled" when cancelled orders are included. So every returned row has the
  requested status or, with cancelled orders included, the status "cancelled"; with the
  defaults every returned row has the status "delivered".
\<close>

theorem create_sales_dataset_status_filter:
  assumes "order_items (loaded_datasets disk ds) = Some items"
    and "orders (loaded_datasets disk ds) = Some ot"
    and "ot_processed ot"
    and "filter_status \<noteq> []"
  shows "\<exists>t. snd (create_sales_dataset disk ds filter_status include_cancelled) = Inr t
     \<and> sales_rows t = map time_columns
           (filter (status_kept filter_status include_cancelled)
              (left_merge_orders (map base_row items) (ot_rows ot)))
     \<and> (\<forall>r. r \<in> set (sales_rows t) \<longleftrightarrow>
            (\<exists>m \<in> set (left_merge_orders (map base_row items) (ot_rows ot)).
               r = time_columns m \<and> status_kept filter_status include_cancelled m))
     \<and> (\<forall>r \<in> set (sales_rows t).
            order_status r = Some filter_status
            \<or> (include_cancelled \<and> order_status r = Some ''cancelled''))
     \<and> (filter_status = ''delivered'' \<and> \<not> include_cancelled \<longrightarrow>
            (\<forall>r \<in> set (sales_rows t). order_status r = Some ''delivered''))"
proof -
  let ?rows = "map time_columns (filter (status_kept filter_status include_cancelled)
                  (left_merge_orders (map base_row items) (ot_rows ot)))"
  let ?t = "\<lparr> order_columns = True, period_columns = True, sales_rows = ?rows \<rparr>"
  have res: "snd (create_sales_dataset disk ds filter_status include_cancelled) = Inr ?t"
    using assms by (rule create_sales_dataset_rows)
  have mem: "\<forall>r. r \<in> set ?rows \<longleftrightarrow>
            (\<exists>m \<in> set (left_merge_orders (map base_row items) (ot_rows ot)).
               r = time_columns m \<and> status_kept filter_status include_cancelled m)"
    by auto
  have kept: "\<forall>r \<in> set ?rows. order_status r = Some filter_status
            \<or> (include_cancelled \<and> order_status r = Some ''cancelled'')"
    by (auto simp: status_time_columns status_kept_def)
  have dflt: "filter_status = ''delivered'' \<and> \<not> include_cancelled \<longrightarrow>
            (\<forall>r \<in> set ?rows. order_status r = Some ''delivered'')"
    using kept by blast
  show ?thesis
  proof (intro exI conjI)
    show "snd (create_sales_dataset disk ds filter_status include_cancelled) = Inr ?t"
      by (rule res)
    show "sales_rows ?t = ?rows" by simp
    show "\<forall>r. r \<in> set (sales_rows ?t) \<longleftrightarrow>
            (\<exists>m \<in> set (left_merge_orders (map base_row items) (ot_rows ot)).
               r = time_columns m \<and> status_kept filter_status include_cancelled m)"
      using mem by simp
    show "\<forall>r \<in> set (sales_rows ?t). order_status r = Some filter_status
            \<or> (include_cancelled \<and> order_status r = Some ''cancelled'')"
      using kept by simp
    show "filter_status = ''delivered'' \<and> \<not> include_cancelled \<longrightarrow>
            (\<forall>r \<in> set (sales_rows ?t). order_status r = Some ''delivered'')"
      using dflt by simp
  qed
qed

text \<open>
  With the defaults, of the three example items only the item of the delivered order is
  returned.
\<close>

theorem create_sales_dataset_status_filter_witness:
  "\<exists>t. snd (create_sales_dataset no_files example_datasets ''delivered'' False) = Inr t
     \<and> sales_rows t
         = [time_columns (with_order (base_row (example_items ! 0))
                            (example_order ''o1'' ''c1'' ''delivered''))]
     \<and> map order_status (sales_rows t) = [Some ''delivered'']"
proof -
  have a: "order_items (loaded_datasets no_files example_datasets) = Some example_items"
    by (simp add: example_loaded) (simp add: example_datasets_def)
  have b: "orders (loaded_datasets no_files example_datasets)
         = Some \<lparr> ot_processed = True,
                  ot_rows = [example_order ''o1'' ''c1'' ''delivered'',
                             example_order ''o2'' ''c2'' ''cancelled''] \<rparr>"
    by (simp add: example_loaded) (simp add: example_datasets_def)
  have c: "ot_processed \<lparr> ot_processed = True,
                  ot_rows = [example_order ''o1'' ''c1'' ''delivered'',
                             example_order ''o2'' ''c2'' ''cancelled''] \<rparr>"
    by simp
  have d: "''delivered'' \<noteq> []" by simp
  from create_sales_dataset_status_filter [OF a b c d, of False]
  obtain t where t: "snd (create_sales_dataset no_files example_datasets ''delivered'' False) = Inr t"
    and rows: "sales_rows t = map time_columns
           (filter (status_kept ''delivered'' False)
              (left_merge_orders (map base_row example_items)
                 (ot_rows \<lparr> ot_processed = True,
                  ot_rows = [example_order ''o1'' ''c1'' ''delivered'',
                             example_order ''o2'' ''c2'' ''cancelled''] \<rparr>)))"
    by blast
  have "sales_rows t = [time_columns (with_order (base_row (example_items ! 0))
                            (example_order ''o1'' ''c1'' ''delivered''))]"
    unfolding rows
    by (simp add: example_merge)
      (simp add: status_kept_def with_order_def base_row_def example_order_def)
  then show ?thesis
    using t by (simp add: status_time_columns with_order_def example_order_def)
qed

text \<open>
  Claim C3. The average order value of a period is the mean, over the distinct order ids
  of the rows of the period, of the summed price of each order (NaN when the period has
  no row), for the current and for the comparison period; it is not the mean of the item
  prices: one order with two items priced 10 and 20 has the average order value 30.
\<close>

theorem calculate_average_order_value_mean_of_order_totals:
  "current_aov (calculate_average_order_value sales col cur cmp) =
     (if filter (\<lambda>r. col r = Some cur) sales = [] then NaN
      else Fin ((\<Sum>k\<in>order_id ` set (filter (\<lambda>r. col r = Some cur) sales).
                   np_sum (map price (filter (\<lambda>r. order_id r = k)
                                        (filter (\<lambda>r. col r = Some cur) sales))))
                / of_nat (card (order_id ` set (filter (\<lambda>r. col r = Some cur) sales)))))
   \<and> comparison_aov (calculate_average_order_value sales col cur cmp) =
     (if filter (\<lambda>r. col r = Some cmp) sales = [] then NaN
      else Fin ((\<Sum>k\<in>order_id ` set (filter (\<lambda>r. col r = Some cmp) sales).
                   np_sum (map price (filter (\<lambda>r. order_id r = k)
                                        (filter (\<lambda>r. col r = Some cmp) sales))))
                / of_nat (card (order_id ` set (filter (\<lambda>r. col r = Some cmp) sales)))))
   \<and> current_aov (calculate_average_order_value
        [sale oid pa 10 2023 1 2, sale oid pb 20 2023 1 2] year 2023 2022) = Fin 30"
proof -
  have ex: "series_mean (map snd (groupby_sum (\<lambda>r. Some (order_id r)) price
              [sale oid pa 10 2023 1 2, sale oid pb 20 2023 1 2])) = Fin 30"
    by (simp add: series_mean_groupby_sum sale_simps np_sum_def cell_value_def)
  show ?thesis
    using ex
    by (simp add: calculate_average_order_value_def Let_def select_period_def
        series_mean_groupby_sum sale_simps del: filter.simps)
qed

text \<open>
  Claim C4, as amended. The current and the comparison revenue are the sums of the prices
  of the rows whose period cell equals the current and the comparison value. The growth
  is (current - comparison) / comparison * 100 when the comparison revenue is above 0 and
  0 otherwise; in particular it is 0 when the comparison revenue is 0.
\<close>

theorem calculate_revenue_metrics_growth:
  "current_revenue (calculate_revenue_metrics sales col cur cmp)
     = (\<Sum>r\<leftarrow>filter (\<lambda>r. col r = Some cur) sales. cell_value (price r))
   \<and> comparison_revenue (calculate_revenue_metrics sales col cur cmp)
     = (\<Sum>r\<leftarrow>filter (\<lambda>r. col r = Some cmp) sales. cell_value (price r))
   \<and> revenue_growth_pct (calculate_revenue_metrics sales col cur cmp)
     = (if comparison_revenue (calculate_revenue_metrics sales col cur cmp) > 0
        then (current_revenue (calculate_revenue_metrics sales col cur cmp)
               - comparison_revenue (calculate_revenue_metrics sales col cur cmp))
             / comparison_revenue (calculate_revenue_metrics sales col cur cmp) * 100
        else 0)
   \<and> (comparison_revenue (calculate_revenue_metrics sales col cur cmp) = 0
        \<longrightarrow> revenue_growth_pct (calculate_revenue_metrics sales col cur cmp) = 0)"
  by (simp add: calculate_revenue_metrics_def Let_def select_period_def np_sum_map)

text \<open>
  The growth is 0 for a period without revenue to compare with.
\<close>

theorem calculate_revenue_metrics_growth_witness:
  "comparison_revenue (calculate_revenue_metrics [sale ''o1'' ''p1'' 10 2023 1 2] year 2023 2022) = 0
   \<and> revenue_growth_pct (calculate_revenue_metrics [sale ''o1'' ''p1'' 10 2023 1 2] year 2023 2022) = 0"
proof -
  have h: "comparison_revenue
             (calculate_revenue_metrics [sale ''o1'' ''p1'' 10 2023 1 2] year 2023 2022) = 0"
    by (simp add: calculate_revenue_metrics_def Let_def select_period_def sale_simps np_sum_def)
  from calculate_revenue_metrics_growth [of "[sale ''o1'' ''p1'' 10 2023 1 2]" year 2023 2022] h
  show ?thesis by blast
qed

text \<open>
  Claim C4 as it is written fails for a comparison revenue below 0: with one item priced
  -10 in 2022 and one item priced 5 in 2023 the comparison revenue is -10, not 0, the
  formula gives -150, and the function returns the growth 0.
\<close>

theorem calculate_revenue_metrics_negative_comparison:
  "comparison_revenue (calculate_revenue_metrics
       [sale ''o1'' ''p1'' (- 10) 2022 1 2, sale ''o2'' ''p1'' 5 2023 1 2] year 2023 2022) \<noteq> 0
   \<and> revenue_growth_pct (calculate_revenue_metrics
       [sale ''o1'' ''p1'' (- 10) 2022 1 2, sale ''o2'' ''p1'' 5 2023 1 2] year 2023 2022)
     \<noteq> (current_revenue (calculate_revenue_metrics
            [sale ''o1'' ''p1'' (- 10) 2022 1 2, sale ''o2'' ''p1'' 5 2023 1 2] year 2023 2022)
          - comparison_revenue (calculate_revenue_metrics
            [sale ''o1'' ''p1'' (- 10) 2022 1 2, sale ''o2'' ''p1'' 5 2023 1 2] year 2023 2022))
        / comparison_revenue (calculate_revenue_metrics
            [sale ''o1'' ''p1'' (- 10) 2022 1 2, sale ''o2'' ''p1'' 5 2023 1 2] year 2023 2022)
        * 100"
  by (simp add: calculate_revenue_metrics_def Let_def select_period_def sale_simps np_sum_def
      cell_value_def)




text \<open>
  Claim C6. The delivery buckets have inclusive boundaries: a speed of at most 3 days is
  in "1-3 days", a speed above 3 and at most 7 days is in "4-7 days", and a speed of 8 days
  or more is in "8+ days"; so exactly 3 days is "1-3 days", exactly 7 days is "4-7 days"
  and exactly 8 days is "8+ days".
\<close>

theorem categorize_delivery_speed_boundaries:
  "categorize_delivery_speed (Some d) =
     (if d \<le> 3 then ''1-3 days'' else if d \<le> 7 then ''4-7 days'' else ''8+ days'')
   \<and> categorize_delivery_speed (Some 3) = ''1-3 days''
   \<and> categorize_delivery_speed (Some 4) = ''4-7 days''
   \<and> categorize_delivery_speed (Some 7) = ''4-7 days''
   \<and> categorize_delivery_speed (Some 8) = ''8+ days''"
  by (simp add: categorize_delivery_speed_def)

text \<open>
  Claim C7. The step that removes duplicates for the order-level analysis compares the
  order id, the delivery speed and the review score of the joined rows. For an order
  with one item and two reviews of the scores 1 and 5 it keeps two rows, both of this
  order, and the averages are taken over both: the average review score is 3 and the
  average delivery time is 2 days.
\<close>

theorem order_satisfaction_two_reviews_two_rows:
  "order_satisfaction [sale ''o1'' ''p1'' 10 2023 1 2]
       [review_of ''o1'' 1, review_of ''o1'' 5] year 2023
     = [(''o1'', Some 2, Some 1), (''o1'', Some 2, Some 5)]
   \<and> map sat_order_id (order_satisfaction [sale ''o1'' ''p1'' 10 2023 1 2]
       [review_of ''o1'' 1, review_of ''o1'' 5] year 2023) = [''o1'', ''o1'']
   \<and> avg_review_score (calculate_customer_satisfaction_metrics
       [sale ''o1'' ''p1'' 10 2023 1 2] [review_of ''o1'' 1, review_of ''o1'' 5] year 2023)
     = Fin 3
   \<and> avg_delivery_time_days (calculate_customer_satisfaction_metrics
       [sale ''o1'' ''p1'' 10 2023 1 2] [review_of ''o1'' 1, review_of ''o1'' 5] year 2023)
     = Fin 2"
proof -
  have rows: "order_satisfaction [sale ''o1'' ''p1'' 10 2023 1 2]
       [review_of ''o1'' 1, review_of ''o1'' 5] year 2023
     = [(''o1'', Some 2, Some 1), (''o1'', Some 2, Some 5)]"
    by (simp add: order_satisfaction_def Let_def select_period_def inner_merge_def sale_simps
        speed_sale review_of_def drop_duplicates_def)
  show ?thesis
    unfolding calculate_customer_satisfaction_metrics_def Let_def rows
    by (simp add: sat_order_id_def sat_review_score_def sat_delivery_speed_def np_mean_def
        np_sum_def np_count_def cell_value_def)
qed

text \<open>
  Claim C8. The order count of a period is the number of distinct order ids among the
  rows of the period, for the current and for the comparison period, and not the number
  of rows: two items of one order, each priced \<open>p\<close>, give the order count 1 and the
  revenue 2 * p.
\<close>

theorem calculate_order_metrics_distinct_orders:
  "current_orders (calculate_order_metrics sales col cur cmp)
     = card (order_id ` {r \<in> set sales. col r = Some cur})
   \<and> comparison_orders (calculate_order_metrics sales col cur cmp)
     = card (order_id ` {r \<in> set sales. col r = Some cmp})
   \<and> current_orders (calculate_order_metrics
         [sale oid pa p 2023 1 2, sale oid pb p 2023 1 2] year 2023 2022) = 1
   \<and> current_revenue (calculate_revenue_metrics
         [sale oid pa p 2023 1 2, sale oid pb p 2023 1 2] year 2023 2022) = 2 * p"
  by (simp add: calculate_order_metrics_def calculate_revenue_metrics_def Let_def
      select_period_def nunique_card sale_simps np_sum_def cell_value_def)

text \<open>
  Claim C9, as amended. \<^verbatim>\<open>create_sales_dataset\<close> raises KeyError when the loader has no
  order items table, and raises KeyError when it has no orders table and the requested
  status is not empty (as with the defaults); with an empty status no filter is asked
  for, and without orders table the order items are returned as they are. A table whose
  file is missing when an empty loader loads the directory is absent afterwards.
\<close>

theorem create_sales_dataset_missing_table:
  "(order_items (loaded_datasets disk ds) = None \<longrightarrow>
      snd (create_sales_dataset disk ds filter_status include_cancelled)
        = Inl (KeyError ''order_items''))
   \<and> (order_items (loaded_datasets disk ds) = Some items
        \<and> orders (loaded_datasets disk ds) = None \<and> filter_status \<noteq> [] \<longrightarrow>
      snd (create_sales_dataset disk ds filter_status include_cancelled)
        = Inl (KeyError ''order_status''))
   \<and> (order_items (loaded_datasets disk ds) = Some items
        \<and> orders (loaded_datasets disk ds) = None \<and> filter_status = [] \<longrightarrow>
      snd (create_sales_dataset disk ds filter_status include_cancelled)
        = Inr \<lparr> order_columns = False, period_columns = False,
                sales_rows = map base_row items \<rparr>)
   \<and> (datasets_empty ds \<and> order_items disk = None \<longrightarrow>
        order_items (loaded_datasets disk ds) = None)
   \<and> (datasets_empty ds \<and> orders disk = None \<longrightarrow>
        orders (loaded_datasets disk ds) = None)"
proof (intro conjI impI)
  assume "order_items (loaded_datasets disk ds) = None"
  then show "snd (create_sales_dataset disk ds filter_status include_cancelled)
        = Inl (KeyError ''order_items'')"
    by (simp add: create_sales_dataset_def Let_def)
next
  assume "order_items (loaded_datasets disk ds) = Some items
        \<and> orders (loaded_datasets disk ds) = None \<and> filter_status \<noteq> []"
  then show "snd (create_sales_dataset disk ds filter_status include_cancelled)
        = Inl (KeyError ''order_status'')"
    by (simp add: create_sales_dataset_def Let_def merge_with_orders_def filter_by_status_def)
next
  assume "order_items (loaded_datasets disk ds) = Some items
        \<and> orders (loaded_datasets disk ds) = None \<and> filter_status = []"
  then show "snd (create_sales_dataset disk ds filter_status include_cancelled)
        = Inr \<lparr> order_columns = False, period_columns = False,
                sales_rows = map base_row items \<rparr>"
    by (simp add: create_sales_dataset_def Let_def merge_with_orders_def filter_by_status_def
        add_time_columns_def)
next
  assume "datasets_empty ds \<and> order_items disk = None"
  then show "order_items (loaded_datasets disk ds) = None"
    by (simp add: loaded_missing)
next
  assume "datasets_empty ds \<and> orders disk = None"
  then show "orders (loaded_datasets disk ds) = None"
    by (simp add: loaded_missing)
qed

text \<open>
  A directory without files, and a loader without orders table, with the defaults.
\<close>

theorem create_sales_dataset_missing_table_witness:
  "datasets_empty no_files \<and> order_items no_files = None
   \<and> snd (create_sales_dataset no_files no_files ''delivered'' False)
       = Inl (KeyError ''order_items'')
   \<and> orders (loaded_datasets no_files example_without_orders) = None
   \<and> snd (create_sales_dataset no_files example_without_orders ''delivered'' False)
       = Inl (KeyError ''order_status'')"
proof -
  have e: "datasets_empty no_files" and i: "order_items no_files = None"
    by (simp_all add: datasets_empty_def no_files_def)
  have d: "''delivered'' \<noteq> []" by simp
  from create_sales_dataset_missing_table
         [where disk = no_files and ds = no_files and filter_status = "''delivered''"
            and include_cancelled = False] e i
  have 1: "snd (create_sales_dataset no_files no_files ''delivered'' False)
       = Inl (KeyError ''order_items'')"
    by blast
  from create_sales_dataset_missing_table
         [where disk = no_files and ds = example_without_orders and items = example_items
            and filter_status = "''delivered''" and include_cancelled = False]
       example_without_orders_loaded d
  have 2: "snd (create_sales_dataset no_files example_without_orders ''delivered'' False)
       = Inl (KeyError ''order_status'')"
    by blast
  show ?thesis using e i 1 2 example_without_orders_loaded by simp
qed

text \<open>
  Claim C9 as it is written fails for an empty requested status: without orders table the
  call does not raise and returns the order items, unfiltered and without order columns.
\<close>

theorem create_sales_dataset_without_orders_unfiltered:
  "orders (loaded_datasets no_files example_without_orders) = None
   \<and> snd (create_sales_dataset no_files example_without_orders [] False)
       = Inr \<lparr> order_columns = False, period_columns = False,
               sales_rows = map base_row example_items \<rparr>"
  using example_without_orders_loaded
  by (simp add: create_sales_dataset_def Let_def merge_with_orders_def filter_by_status_def
      add_time_columns_def)

text \<open>
  Claim C10. A row of the deduplicated order table whose delivery speed is zero or
  negative is put into the bucket "1-3 days": it is one of the rows of that bucket, the
  entry of the bucket in the result is the mean of the review scores of these rows, and
  when the row has a review score, that score is counted in this mean, in the sum and
  in the number of scores. The row is neither left out nor marked.
\<close>

theorem nonpositive_delivery_speed_in_first_bucket:
  assumes "x \<in> set (order_satisfaction sales_data reviews_data col v)"
    and "sat_delivery_speed x = Some d"
    and "d \<le> 0"
  shows "categorize_delivery_speed (sat_delivery_speed x) = ''1-3 days''
     \<and> x \<in> set (filter (\<lambda>z. categorize_delivery_speed (sat_delivery_speed z) = ''1-3 days'')
                   (order_satisfaction sales_data reviews_data col v))
     \<and> map_of (satisfaction_by_delivery_speed
                 (calculate_customer_satisfaction_metrics sales_data reviews_data col v))
              ''1-3 days''
         = Some (np_mean (map sat_review_score
              (filter (\<lambda>z. categorize_delivery_speed (sat_delivery_speed z) = ''1-3 days'')
                 (order_satisfaction sales_data reviews_data col v))))
     \<and> (\<forall>s. sat_review_score x = Some s \<longrightarrow>
          map_of (satisfaction_by_delivery_speed
                 (calculate_customer_satisfaction_metrics sales_data reviews_data col v))
              ''1-3 days''
            = Some (Fin ((s + np_sum (map sat_review_score (remove1 x
                 (filter (\<lambda>z. categorize_delivery_speed (sat_delivery_speed z) = ''1-3 days'')
                    (order_satisfaction sales_data reviews_data col v)))))
               / of_nat (Suc (np_count (map sat_review_score (remove1 x
                 (filter (\<lambda>z. categorize_delivery_speed (sat_delivery_speed z) = ''1-3 days'')
                    (order_satisfaction sales_data reviews_data col v)))))))))"
proof -
  let ?os = "order_satisfaction sales_data reviews_data col v"
  let ?key = "\<lambda>z. Some (categorize_delivery_speed (sat_delivery_speed z))"
  let ?bucket = "filter (\<lambda>z. categorize_delivery_speed (sat_delivery_speed z) = ''1-3 days'') ?os"
  have cat: "categorize_delivery_speed (sat_delivery_speed x) = ''1-3 days''"
    using assms(2,3) by (simp add: categorize_delivery_speed_def)
  have mem: "x \<in> set ?bucket" using assms(1) cat by simp
  have key: "''1-3 days'' \<in> set (group_keys ?key ?os)"
    using assms(1) cat by (auto simp: set_group_keys)
  have look: "map_of (satisfaction_by_delivery_speed
                 (calculate_customer_satisfaction_metrics sales_data reviews_data col v))
              ''1-3 days'' = Some (np_mean (map sat_review_score ?bucket))"
    using key
    by (simp add: calculate_customer_satisfaction_metrics_def Let_def map_of_groupby_mean
        group_rows_def)
  have incl: "\<forall>s. sat_review_score x = Some s \<longrightarrow>
      np_mean (map sat_review_score ?bucket)
        = Fin ((s + np_sum (map sat_review_score (remove1 x ?bucket)))
               / of_nat (Suc (np_count (map sat_review_score (remove1 x ?bucket)))))"
    using np_mean_member [OF mem] by blast
  show ?thesis using cat mem look incl by simp
qed

text \<open>
  An order delivered one day before its purchase, with the review score 4.
\<close>

theorem nonpositive_delivery_speed_in_first_bucket_witness:
  "(''o1'', Some (- 1), Some 4)
     \<in> set (order_satisfaction [sale ''o1'' ''p1'' 10 2023 1 (- 1)] [review_of ''o1'' 4] year 2023)
   \<and> map_of (satisfaction_by_delivery_speed
        (calculate_customer_satisfaction_metrics
           [sale ''o1'' ''p1'' 10 2023 1 (- 1)] [review_of ''o1'' 4] year 2023)) ''1-3 days''
     = Some (Fin 4)"
proof -
  have a: "(''o1'', Some (- 1), Some 4)
     \<in> set (order_satisfaction [sale ''o1'' ''p1'' 10 2023 1 (- 1)] [review_of ''o1'' 4] year 2023)"
    by (simp add: early_delivery_rows)
  have b: "sat_delivery_speed (''o1'', Some (- 1), Some 4) = Some (- 1)"
    by (simp add: sat_delivery_speed_def)
  have c: "(- 1 :: int) \<le> 0" by simp
  have d: "sat_review_score (''o1'', Some (- 1), Some (4 :: rat)) = Some 4"
    by (simp add: sat_review_score_def)
  from nonpositive_delivery_speed_in_first_bucket [OF a b c] d
  have "map_of (satisfaction_by_delivery_speed
        (calculate_customer_satisfaction_metrics
           [sale ''o1'' ''p1'' 10 2023 1 (- 1)] [review_of ''o1'' 4] year 2023)) ''1-3 days''
     = Some (Fin ((4 + np_sum (map sat_review_score (remove1 (''o1'', Some (- 1), Some 4)
                 (filter (\<lambda>z. categorize_delivery_speed (sat_delivery_speed z) = ''1-3 days'')
                    (order_satisfaction [sale ''o1'' ''p1'' 10 2023 1 (- 1)]
                       [review_of ''o1'' 4] year 2023)))))
               / of_nat (Suc (np_count (map sat_review_score (remove1 (''o1'', Some (- 1), Some 4)
                 (filter (\<lambda>z. categorize_delivery_speed (sat_delivery_speed z) = ''1-3 days'')
                    (order_satisfaction [sale ''o1'' ''p1'' 10 2023 1 (- 1)]
                       [review_of ''o1'' 4] year 2023))))))))"
    by blast
  moreover have "filter (\<lambda>z. categorize_delivery_speed (sat_delivery_speed z) = ''1-3 days'')
                    (order_satisfaction [sale ''o1'' ''p1'' 10 2023 1 (- 1)]
                       [review_of ''o1'' 4] year 2023) = [(''o1'', Some (- 1), Some 4)]"
    unfolding early_delivery_rows
    by (simp add: categorize_delivery_speed_def sat_delivery_speed_def)
  ultimately show ?thesis
    using a by (simp add: np_sum_def np_count_def)
qed

end
